theory Spec2Isabelle
  imports Main
begin

section \<open>Interactive slide widgets (assets/js/interactive.js)\<close>

text \<open>
  The script is a flat collection of widget routines sharing the page's document and a
  few module-level variables (\<open>timerInterval\<close>, \<open>timerSeconds\<close>, \<open>scores\<close>,
  \<open>merkleAnimationStep\<close>).  Every routine is embedded as a function from the page
  state to the page state.  JavaScript numbers that hold seconds, scores and character
  counts are embedded as mathematical integers (\<open>int\<close>); strings as \<open>string\<close>, one
  \<open>char\<close> standing for one code unit.
\<close>

subsection \<open>Strings and numbers\<close>

definition digit_char :: "nat \<Rightarrow> char" where
  "digit_char d = ''0123456789'' ! d"

text \<open>\<open>Number.prototype.toString()\<close> on an integer: decimal digits, a leading minus
  sign for a negative value.\<close>

fun nat_toString :: "nat \<Rightarrow> string" where
  "nat_toString n =
     (if n < 10 then [digit_char n] else nat_toString (n div 10) @ [digit_char (n mod 10)])"

declare nat_toString.simps [simp del]

definition js_toString :: "int \<Rightarrow> string" where
  "js_toString i = (if i < 0 then CHR ''-'' # nat_toString (nat (- i)) else nat_toString (nat i))"

text \<open>\<open>String.prototype.padStart(targetLength, padChar)\<close> with a one-character pad.\<close>

definition padStart :: "nat \<Rightarrow> char \<Rightarrow> string \<Rightarrow> string" where
  "padStart n c s = replicate (n - length s) c @ s"

text \<open>The remainder operator \<open>%\<close>: the result takes the sign of the dividend.\<close>

definition js_rem :: "int \<Rightarrow> int \<Rightarrow> int" where
  "js_rem a b = (if a < 0 then - ((- a) mod \<bar>b\<bar>) else a mod \<bar>b\<bar>)"

text \<open>\<open>Math.floor(a / b)\<close> on integers is floor division, which is \<open>div\<close> on \<open>int\<close>.\<close>

definition js_floor_div :: "int \<Rightarrow> int \<Rightarrow> int" where
  "js_floor_div a b = a div b"

text \<open>\<open>String.prototype.substring(start, end)\<close>: both indices are clamped to
  \<open>[0, length]\<close> and swapped when \<open>start > end\<close>; \<open>substring(start)\<close> runs to the end
  of the string.\<close>

definition clamp_index :: "string \<Rightarrow> int \<Rightarrow> nat" where
  "clamp_index s i = (if i < 0 then 0 else min (nat i) (length s))"

definition substring :: "string \<Rightarrow> int \<Rightarrow> int \<Rightarrow> string" where
  "substring s start end =
     (let a = clamp_index s start; b = clamp_index s end;
          lo = min a b; hi = max a b
      in take (hi - lo) (drop lo s))"

definition substring_from :: "string \<Rightarrow> int \<Rightarrow> string" where
  "substring_from s start = substring s start (int (length s))"

subsection \<open>Utility functions\<close>

text \<open>
  \<^verbatim>\<open>
  function truncateHash(hash, startChars = 6, endChars = 4) {
      if (hash.length <= startChars + endChars + 3) { return hash; }
      return hash.substring(0, startChars) + '...' + hash.substring(hash.length - endChars);
  }
  \<close>
\<close>

definition truncateHash :: "string \<Rightarrow> int \<Rightarrow> int \<Rightarrow> string" where
  "truncateHash hash startChars endChars =
     (if int (length hash) \<le> startChars + endChars + 3 then hash
      else substring hash 0 startChars @ ''...'' @ substring_from hash (int (length hash) - endChars))"

text \<open>The call with both optional parameters left out.\<close>

definition truncateHash_default :: "string \<Rightarrow> string" where
  "truncateHash_default hash = truncateHash hash 6 4"

subsection \<open>The document\<close>

text \<open>
  The page's elements are kept in document order.  An element's position in that list is
  its identity: the script holds elements by reference (the timer's tick closure keeps the
  display it was started with), and no routine of the script inserts or removes elements.
  The tree structure is kept as the nesting depth of each element, so the descendants of
  an element are the elements that follow it for as long as their depth is larger.
  \<open>el_id\<close> is the \<open>id\<close> attribute, empty when the element has none.  Of an element's
  content and style only what the script reads or writes is kept.
\<close>

record element =
  el_id :: string
  depth :: nat
  classList :: "string list"
  textContent :: string
  style_color :: string
  style_animation :: string

type_synonym dom = "element list"

fun first_index :: "('a \<Rightarrow> bool) \<Rightarrow> 'a list \<Rightarrow> nat option" where
  "first_index P [] = None"
| "first_index P (x # xs) = (if P x then Some 0 else map_option Suc (first_index P xs))"

text \<open>\<open>document.getElementById(id)\<close>: the first element in document order with that
  identifier, \<open>null\<close> (here \<open>None\<close>) when there is none.\<close>

definition getElementById :: "dom \<Rightarrow> string \<Rightarrow> nat option" where
  "getElementById doc ident = (if ident = [] then None else first_index (\<lambda>e. el_id e = ident) doc)"

definition update_element :: "nat \<Rightarrow> (element \<Rightarrow> element) \<Rightarrow> dom \<Rightarrow> dom" where
  "update_element i f doc = (if i < length doc then doc[i := f (doc ! i)] else doc)"

text \<open>\<open>classList.add\<close>, \<open>classList.remove\<close> and \<open>classList.contains\<close>.\<close>

definition classList_add :: "string \<Rightarrow> element \<Rightarrow> element" where
  "classList_add c e = (if c \<in> set (classList e) then e else e\<lparr>classList := classList e @ [c]\<rparr>)"

definition classList_remove :: "string \<Rightarrow> element \<Rightarrow> element" where
  "classList_remove c e = e\<lparr>classList := removeAll c (classList e)\<rparr>"

definition classList_contains :: "string \<Rightarrow> element \<Rightarrow> bool" where
  "classList_contains c e = (c \<in> set (classList e))"

text \<open>A compound class selector such as \<open>.progress-item.current\<close> matches the elements
  that carry every listed class.\<close>

definition matches :: "string list \<Rightarrow> element \<Rightarrow> bool" where
  "matches cs e = (set cs \<subseteq> set (classList e))"

text \<open>\<open>document.querySelectorAll(selector)\<close>, as the positions of the matching
  elements in document order.\<close>

definition querySelectorAll :: "dom \<Rightarrow> string list \<Rightarrow> nat list" where
  "querySelectorAll doc cs = filter (\<lambda>j. matches cs (doc ! j)) [0..<length doc]"

definition subtree_size :: "dom \<Rightarrow> nat \<Rightarrow> nat" where
  "subtree_size doc i = length (takeWhile (\<lambda>e. depth (doc ! i) < depth e) (drop (Suc i) doc))"

definition descendants :: "dom \<Rightarrow> nat \<Rightarrow> nat list" where
  "descendants doc i = [Suc i ..< Suc i + subtree_size doc i]"

text \<open>\<open>element.querySelectorAll(selector)\<close>: the matching descendants of the element.\<close>

definition querySelectorAll_in :: "dom \<Rightarrow> nat \<Rightarrow> string list \<Rightarrow> nat list" where
  "querySelectorAll_in doc i cs = filter (\<lambda>j. matches cs (doc ! j)) (descendants doc i)"

text \<open>\<open>nodeList.forEach(el => ...)\<close> with a body that only changes \<open>el\<close>.\<close>

definition forEach :: "nat list \<Rightarrow> (element \<Rightarrow> element) \<Rightarrow> dom \<Rightarrow> dom" where
  "forEach js f doc = fold (\<lambda>j. update_element j f) js doc"

subsection \<open>The page state\<close>

text \<open>
  \<open>intervals\<close> is the browser's table of live repeating timers installed by
  \<open>startTimer\<close>: a handle and the closure of its tick callback, which captured the
  display element and the \<open>onComplete\<close> argument.  \<open>setInterval\<close> hands out positive
  integers, so the test \<open>if (timerInterval)\<close> holds exactly when the variable is not
  \<open>null\<close>.  \<open>onComplete\<close> is caller code: it is \<open>None\<close> when the argument is not a
  function, and a call of the callback \<open>f\<close> is recorded by appending \<open>f\<close> to
  \<open>completions\<close>.  \<open>animateNumber(element, target)\<close> interpolates in floating point
  on its own timer; only its launch is recorded, in \<open>animations\<close>.
\<close>

record tick_closure =
  cl_display :: nat
  cl_onComplete :: "nat option"

datatype log_line = ConsoleError string "string option"

record page =
  document :: dom
  timerInterval :: "nat option"
  timerSeconds :: int
  intervals :: "(nat \<times> tick_closure) list"
  last_handle :: nat
  scores :: "string \<rightharpoonup> int"
  merkleAnimationStep :: nat
  console :: "log_line list"
  completions :: "nat list"
  animations :: "(nat \<times> int option) list"

text \<open>The state when the script has been loaded on a page with document \<open>doc\<close>.\<close>

definition initial_page :: "dom \<Rightarrow> page" where
  "initial_page doc =
     \<lparr>document = doc, timerInterval = None, timerSeconds = 0, intervals = [],
      last_handle = 0, scores = [''hacker'' \<mapsto> 0, ''security'' \<mapsto> 0],
      merkleAnimationStep = 0, console = [], completions = [], animations = []\<rparr>"

definition setInterval :: "tick_closure \<Rightarrow> page \<Rightarrow> nat \<times> page" where
  "setInterval cl s =
     (let h = Suc (last_handle s)
      in (h, s\<lparr>intervals := intervals s @ [(h, cl)], last_handle := h\<rparr>))"

definition clearInterval :: "nat \<Rightarrow> page \<Rightarrow> page" where
  "clearInterval h s = s\<lparr>intervals := filter (\<lambda>(k, cl). k \<noteq> h) (intervals s)\<rparr>"

definition on_element :: "nat \<Rightarrow> (element \<Rightarrow> element) \<Rightarrow> page \<Rightarrow> page" where
  "on_element i f s = s\<lparr>document := update_element i f (document s)\<rparr>"

subsection \<open>Challenge timer\<close>

text \<open>
  \<^verbatim>\<open>
  function updateTimerDisplay(display) {
      const minutes = Math.floor(timerSeconds / 60);
      const seconds = timerSeconds % 60;
      display.textContent = `${minutes}:${seconds.toString().padStart(2, '0')}`;
  }
  \<close>
\<close>

definition render_time :: "int \<Rightarrow> string" where
  "render_time t =
     (let minutes = js_floor_div t 60; seconds = js_rem t 60
      in js_toString minutes @ '':'' @ padStart 2 (CHR ''0'') (js_toString seconds))"

definition updateTimerDisplay :: "nat \<Rightarrow> page \<Rightarrow> page" where
  "updateTimerDisplay display s =
     on_element display (\<lambda>e. e\<lparr>textContent := render_time (timerSeconds s)\<rparr>) s"

text \<open>
  The callback given to \<open>setInterval\<close> in \<open>startTimer\<close>, in its three parts: the
  decrement and re-rendering, the expiry block, and the two colour checks.
  \<^verbatim>\<open>
      timerSeconds--;
      updateTimerDisplay(display);
      if (timerSeconds <= 0) {
          clearInterval(timerInterval);
          timerInterval = null;
          display.textContent = "TIME'S UP!";
          display.style.animation = 'pulse 0.5s infinite';
          if (typeof onComplete === 'function') { onComplete(); }
      }
      if (timerSeconds === 30) { display.style.color = '#f59e0b'; }
      if (timerSeconds <= 10) { display.style.color = '#ef4444'; }
  \<close>
\<close>

definition tick_render :: "tick_closure \<Rightarrow> page \<Rightarrow> page" where
  "tick_render cl s = updateTimerDisplay (cl_display cl) (s\<lparr>timerSeconds := timerSeconds s - 1\<rparr>)"

definition tick_expire :: "tick_closure \<Rightarrow> page \<Rightarrow> page" where
  "tick_expire cl s =
     (if timerSeconds s \<le> 0 then
        let s1 = (case timerInterval s of None \<Rightarrow> s | Some h \<Rightarrow> clearInterval h s);
            s2 = s1\<lparr>timerInterval := None\<rparr>;
            s3 = on_element (cl_display cl) (\<lambda>e. e\<lparr>textContent := ''TIME'S UP!''\<rparr>) s2;
            s4 = on_element (cl_display cl) (\<lambda>e. e\<lparr>style_animation := ''pulse 0.5s infinite''\<rparr>) s3
        in (case cl_onComplete cl of
              None \<Rightarrow> s4
            | Some f \<Rightarrow> s4\<lparr>completions := completions s4 @ [f]\<rparr>)
      else s)"

definition tick_colors :: "tick_closure \<Rightarrow> page \<Rightarrow> page" where
  "tick_colors cl s =
     (let s1 = (if timerSeconds s = 30
                then on_element (cl_display cl) (\<lambda>e. e\<lparr>style_color := ''#f59e0b''\<rparr>) s else s)
      in if timerSeconds s1 \<le> 10
         then on_element (cl_display cl) (\<lambda>e. e\<lparr>style_color := ''#ef4444''\<rparr>) s1 else s1)"

definition timer_callback :: "tick_closure \<Rightarrow> page \<Rightarrow> page" where
  "timer_callback cl s = tick_colors cl (tick_expire cl (tick_render cl s))"

text \<open>One firing of the interval with handle \<open>h\<close>.  The browser runs the callback of a
  live interval only: a cleared handle never fires again.\<close>

definition tick :: "nat \<Rightarrow> page \<Rightarrow> page" where
  "tick h s = (case map_of (intervals s) h of None \<Rightarrow> s | Some cl \<Rightarrow> timer_callback cl s)"

text \<open>
  \<^verbatim>\<open>
  function startTimer(displayId, seconds, onComplete) {
      const display = document.getElementById(displayId);
      if (!display) return;
      if (timerInterval) { clearInterval(timerInterval); }
      timerSeconds = seconds;
      updateTimerDisplay(display);
      timerInterval = setInterval(() => { ... }, 1000);
  }
  \<close>
\<close>

definition startTimer :: "string \<Rightarrow> int \<Rightarrow> nat option \<Rightarrow> page \<Rightarrow> page" where
  "startTimer displayId seconds onComplete s =
     (case getElementById (document s) displayId of
        None \<Rightarrow> s
      | Some display \<Rightarrow>
          let s1 = (case timerInterval s of None \<Rightarrow> s | Some h \<Rightarrow> clearInterval h s);
              s2 = s1\<lparr>timerSeconds := seconds\<rparr>;
              s3 = updateTimerDisplay display s2;
              (h, s4) = setInterval \<lparr>cl_display = display, cl_onComplete = onComplete\<rparr> s3
          in s4\<lparr>timerInterval := Some h\<rparr>)"

text \<open>
  \<^verbatim>\<open>
  function stopTimer() {
      if (timerInterval) { clearInterval(timerInterval); timerInterval = null; }
  }
  \<close>
\<close>

definition stopTimer :: "page \<Rightarrow> page" where
  "stopTimer s =
     (case timerInterval s of
        None \<Rightarrow> s
      | Some h \<Rightarrow> (clearInterval h s)\<lparr>timerInterval := None\<rparr>)"

text \<open>
  \<^verbatim>\<open>
  function resetTimer(displayId, seconds) {
      stopTimer();
      const display = document.getElementById(displayId);
      if (display) {
          timerSeconds = seconds;
          updateTimerDisplay(display);
          display.style.color = '';
          display.style.animation = '';
      }
  }
  \<close>
\<close>

definition resetTimer :: "string \<Rightarrow> int \<Rightarrow> page \<Rightarrow> page" where
  "resetTimer displayId seconds s =
     (let s1 = stopTimer s
      in case getElementById (document s1) displayId of
           None \<Rightarrow> s1
         | Some display \<Rightarrow>
             let s2 = s1\<lparr>timerSeconds := seconds\<rparr>;
                 s3 = updateTimerDisplay display s2;
                 s4 = on_element display (\<lambda>e. e\<lparr>style_color := []\<rparr>) s3
             in on_element display (\<lambda>e. e\<lparr>style_animation := []\<rparr>) s4)"

text \<open>Calls of the three timer routines and firings of intervals, in any order.\<close>

datatype timer_event =
    StartTimer string int "nat option"
  | StopTimer
  | ResetTimer string int
  | Tick nat

fun timer_step :: "timer_event \<Rightarrow> page \<Rightarrow> page" where
  "timer_step (StartTimer displayId seconds onComplete) s = startTimer displayId seconds onComplete s"
| "timer_step StopTimer s = stopTimer s"
| "timer_step (ResetTimer displayId seconds) s = resetTimer displayId seconds s"
| "timer_step (Tick h) s = tick h s"

definition timer_run :: "timer_event list \<Rightarrow> page \<Rightarrow> page" where
  "timer_run evs s = fold timer_step evs s"

subsection \<open>Scoreboard\<close>

text \<open>
  \<open>scores\<close> is an object with the two own properties \<open>hacker\<close> and \<open>security\<close>;
  \<open>scores.hasOwnProperty(team)\<close> is membership of \<open>team\<close> in the domain of the map.
  \<^verbatim>\<open>
  function updateScoreDisplay() {
      const hackerDisplay = document.getElementById('score-hacker');
      const securityDisplay = document.getElementById('score-security');
      if (hackerDisplay) { animateNumber(hackerDisplay, scores.hacker); }
      if (securityDisplay) { animateNumber(securityDisplay, scores.security); }
  }
  \<close>
\<close>

definition animateNumber :: "nat \<Rightarrow> int option \<Rightarrow> page \<Rightarrow> page" where
  "animateNumber el targetValue s = s\<lparr>animations := animations s @ [(el, targetValue)]\<rparr>"

definition updateScoreDisplay :: "page \<Rightarrow> page" where
  "updateScoreDisplay s =
     (let hackerDisplay = getElementById (document s) ''score-hacker'';
          securityDisplay = getElementById (document s) ''score-security'';
          s1 = (case hackerDisplay of None \<Rightarrow> s
                | Some el \<Rightarrow> animateNumber el (scores s ''hacker'') s)
      in case securityDisplay of None \<Rightarrow> s1
         | Some el \<Rightarrow> animateNumber el (scores s1 ''security'') s1)"

text \<open>
  \<^verbatim>\<open>
  function updateScore(team, points) {
      if (scores.hasOwnProperty(team)) { scores[team] += points; updateScoreDisplay(); }
  }
  function setScore(team, points) {
      if (scores.hasOwnProperty(team)) { scores[team] = points; updateScoreDisplay(); }
  }
  function resetScores() {
      scores.hacker = 0; scores.security = 0; updateScoreDisplay();
  }
  \<close>
\<close>

definition updateScore :: "string \<Rightarrow> int \<Rightarrow> page \<Rightarrow> page" where
  "updateScore team points s =
     (case scores s team of
        None \<Rightarrow> s
      | Some v \<Rightarrow> updateScoreDisplay (s\<lparr>scores := (scores s)(team \<mapsto> v + points)\<rparr>))"

definition setScore :: "string \<Rightarrow> int \<Rightarrow> page \<Rightarrow> page" where
  "setScore team points s =
     (case scores s team of
        None \<Rightarrow> s
      | Some v \<Rightarrow> updateScoreDisplay (s\<lparr>scores := (scores s)(team \<mapsto> points)\<rparr>))"

definition resetScores :: "page \<Rightarrow> page" where
  "resetScores s =
     updateScoreDisplay (s\<lparr>scores := (scores s)(''hacker'' \<mapsto> 0, ''security'' \<mapsto> 0)\<rparr>)"

subsection \<open>Reveal answers\<close>

text \<open>
  \<^verbatim>\<open>
  function revealAnswer(elementId) {
      const element = document.getElementById(elementId);
      if (element) { element.classList.add('revealed'); }
  }
  function hideAnswer(elementId) {
      const element = document.getElementById(elementId);
      if (element) { element.classList.remove('revealed'); }
  }
  \<close>
\<close>

definition revealAnswer :: "string \<Rightarrow> page \<Rightarrow> page" where
  "revealAnswer elementId s =
     (case getElementById (document s) elementId of
        None \<Rightarrow> s
      | Some el \<Rightarrow> on_element el (classList_add ''revealed'') s)"

definition hideAnswer :: "string \<Rightarrow> page \<Rightarrow> page" where
  "hideAnswer elementId s =
     (case getElementById (document s) elementId of
        None \<Rightarrow> s
      | Some el \<Rightarrow> on_element el (classList_remove ''revealed'') s)"

subsection \<open>Progress tracker\<close>

text \<open>
  \<^verbatim>\<open>
  function markComplete(itemId) {
      const item = document.getElementById(itemId);
      if (item) { item.classList.remove('current'); item.classList.add('completed'); }
  }
  function setCurrent(itemId) {
      document.querySelectorAll('.progress-item.current').forEach(el => {
          el.classList.remove('current');
      });
      const item = document.getElementById(itemId);
      if (item && !item.classList.contains('completed')) { item.classList.add('current'); }
  }
  \<close>
\<close>

definition markComplete :: "string \<Rightarrow> page \<Rightarrow> page" where
  "markComplete itemId s =
     (case getElementById (document s) itemId of
        None \<Rightarrow> s
      | Some item \<Rightarrow>
          on_element item (classList_add ''completed'')
            (on_element item (classList_remove ''current'') s))"

definition setCurrent :: "string \<Rightarrow> page \<Rightarrow> page" where
  "setCurrent itemId s =
     (let s1 = s\<lparr>document :=
                  forEach (querySelectorAll (document s) [''progress-item'', ''current''])
                    (classList_remove ''current'') (document s)\<rparr>
      in case getElementById (document s1) itemId of
           None \<Rightarrow> s1
         | Some item \<Rightarrow>
             if \<not> classList_contains ''completed'' (document s1 ! item)
             then on_element item (classList_add ''current'') s1
             else s1)"

subsection \<open>Merkle tree animation\<close>

text \<open>
  \<^verbatim>\<open>
  function animateMerkleTree(containerId) {
      const container = document.getElementById(containerId);
      if (!container) return;
      const steps = container.querySelectorAll('.merkle-step');
      if (merkleAnimationStep < steps.length) {
          steps[merkleAnimationStep].classList.add('visible');
          merkleAnimationStep++;
      }
  }
  function resetMerkleAnimation(containerId) {
      const container = document.getElementById(containerId);
      if (!container) return;
      merkleAnimationStep = 0;
      container.querySelectorAll('.merkle-step').forEach(step => {
          step.classList.remove('visible');
      });
  }
  \<close>
\<close>

definition animateMerkleTree :: "string \<Rightarrow> page \<Rightarrow> page" where
  "animateMerkleTree containerId s =
     (case getElementById (document s) containerId of
        None \<Rightarrow> s
      | Some container \<Rightarrow>
          let steps = querySelectorAll_in (document s) container [''merkle-step'']
          in if merkleAnimationStep s < length steps
             then (on_element (steps ! merkleAnimationStep s) (classList_add ''visible'') s)
                    \<lparr>merkleAnimationStep := merkleAnimationStep s + 1\<rparr>
             else s)"

definition resetMerkleAnimation :: "string \<Rightarrow> page \<Rightarrow> page" where
  "resetMerkleAnimation containerId s =
     (case getElementById (document s) containerId of
        None \<Rightarrow> s
      | Some container \<Rightarrow>
          let s1 = s\<lparr>merkleAnimationStep := 0\<rparr>
          in s1\<lparr>document :=
                 forEach (querySelectorAll_in (document s1) container [''merkle-step''])
                   (classList_remove ''visible'') (document s1)\<rparr>)"

subsection \<open>Bug highlighting\<close>

text \<open>
  \<^verbatim>\<open>
  function highlightBug(codeBlockId, lineNumber) {
      const codeBlock = document.getElementById(codeBlockId);
      if (!codeBlock) return;
      const lines = codeBlock.querySelectorAll('.code-line');
      if (lines[lineNumber - 1]) { lines[lineNumber - 1].classList.add('bug-highlight'); }
  }
  function clearBugHighlights(codeBlockId) {
      const codeBlock = document.getElementById(codeBlockId);
      if (!codeBlock) return;
      codeBlock.querySelectorAll('.bug-highlight').forEach(line => {
          line.classList.remove('bug-highlight');
      });
  }
  \<close>
  Reading a node list outside its range gives \<open>undefined\<close>, so the guard of
  \<open>highlightBug\<close> holds exactly for \<open>1 \<le> lineNumber \<le> lines.length\<close>.
\<close>

definition highlightBug :: "string \<Rightarrow> int \<Rightarrow> page \<Rightarrow> page" where
  "highlightBug codeBlockId lineNumber s =
     (case getElementById (document s) codeBlockId of
        None \<Rightarrow> s
      | Some codeBlock \<Rightarrow>
          let lines = querySelectorAll_in (document s) codeBlock [''code-line'']
          in if 0 \<le> lineNumber - 1 \<and> lineNumber - 1 < int (length lines)
             then on_element (lines ! nat (lineNumber - 1)) (classList_add ''bug-highlight'') s
             else s)"

definition clearBugHighlights :: "string \<Rightarrow> page \<Rightarrow> page" where
  "clearBugHighlights codeBlockId s =
     (case getElementById (document s) codeBlockId of
        None \<Rightarrow> s
      | Some codeBlock \<Rightarrow>
          s\<lparr>document :=
              forEach (querySelectorAll_in (document s) codeBlock [''bug-highlight''])
                (classList_remove ''bug-highlight'') (document s)\<rparr>)"

subsection \<open>Hash demo\<close>

text \<open>
  The hashing library is an external capability: the global \<open>ethers\<close> is either
  undefined (\<open>None\<close>) or provides \<open>toUtf8Bytes\<close> and \<open>keccak256\<close>, each of which
  returns a value or throws (\<open>Inl\<close> of the thrown error).  A result \<open>Inl\<close> of
  \<open>computeKeccakHash\<close> would be an exception reaching its caller.
  \<^verbatim>\<open>
  async function computeKeccakHash(input) {
      if (typeof ethers === 'undefined') {
          console.error('ethers.js not loaded');
          return 'Error: ethers.js not loaded';
      }
      try {
          const hash = ethers.keccak256(ethers.toUtf8Bytes(input));
          return hash;
      } catch (error) {
          console.error('Hash computation error:', error);
          return 'Error computing hash';
      }
  }
  \<close>
\<close>

record ethers_lib =
  toUtf8Bytes :: "string \<Rightarrow> string + nat list"
  keccak256 :: "nat list \<Rightarrow> string + string"

definition hash_call :: "ethers_lib \<Rightarrow> string \<Rightarrow> string + string" where
  "hash_call ethers input =
     (case toUtf8Bytes ethers input of
        Inl err \<Rightarrow> Inl err
      | Inr bytes \<Rightarrow> keccak256 ethers bytes)"

definition computeKeccakHash :: "ethers_lib option \<Rightarrow> string \<Rightarrow> page \<Rightarrow> (string + string) \<times> page" where
  "computeKeccakHash ethers input s =
     (case ethers of
        None \<Rightarrow>
          (Inr ''Error: ethers.js not loaded'',
           s\<lparr>console := console s @ [ConsoleError ''ethers.js not loaded'' None]\<rparr>)
      | Some lib \<Rightarrow>
          (case hash_call lib input of
             Inr hash \<Rightarrow> (Inr hash, s)
           | Inl err \<Rightarrow>
               (Inr ''Error computing hash'',
                s\<lparr>console := console s @ [ConsoleError ''Hash computation error:'' (Some err)]\<rparr>)))"

subsection \<open>Timer invariants\<close>

text \<open>The live intervals are exactly the one whose handle \<open>timerInterval\<close> holds, if any.\<close>

definition single_timer :: "page \<Rightarrow> bool" where
  "single_timer s =
     (map fst (intervals s) = (case timerInterval s of None \<Rightarrow> [] | Some h \<Rightarrow> [h]))"

text \<open>The remaining seconds are not negative, and at least one while a timer is running.\<close>

definition countdown_inv :: "page \<Rightarrow> bool" where
  "countdown_inv s =
     (single_timer s \<and> 0 \<le> timerSeconds s \<and> (timerInterval s \<noteq> None \<longrightarrow> 1 \<le> timerSeconds s))"

text \<open>Events whose seconds argument is not negative, and events whose seconds argument is
  positive for \<open>startTimer\<close> and not negative for \<open>resetTimer\<close>.\<close>

fun nonneg_seconds :: "timer_event \<Rightarrow> bool" where
  "nonneg_seconds (StartTimer displayId seconds onComplete) = (0 \<le> seconds)"
| "nonneg_seconds (ResetTimer displayId seconds) = (0 \<le> seconds)"
| "nonneg_seconds StopTimer = True"
| "nonneg_seconds (Tick h) = True"

fun positive_start :: "timer_event \<Rightarrow> bool" where
  "positive_start (StartTimer displayId seconds onComplete) = (1 \<le> seconds)"
| "positive_start (ResetTimer displayId seconds) = (0 \<le> seconds)"
| "positive_start StopTimer = True"
| "positive_start (Tick h) = True"

text \<open>A text of the form minutes, colon, two digits of seconds: one or more decimal
  digits, a colon, and exactly two decimal digits.\<close>

definition is_digit_char :: "char \<Rightarrow> bool" where
  "is_digit_char c = (c \<in> set ''0123456789'')"

definition is_minutes_seconds :: "string \<Rightarrow> bool" where
  "is_minutes_seconds t =
     (case rev t of
        s2 # s1 # colon # ms \<Rightarrow>
          is_digit_char s2 \<and> is_digit_char s1 \<and> colon = CHR '':''
            \<and> ms \<noteq> [] \<and> list_all is_digit_char ms
      | _ \<Rightarrow> False)"

subsection \<open>Example pages\<close>

definition plain_element :: "string \<Rightarrow> string list \<Rightarrow> element" where
  "plain_element ident cs =
     \<lparr>el_id = ident, depth = 0, classList = cs, textContent = [],
      style_color = [], style_animation = []\<rparr>"

definition scoreboard_page :: page where
  "scoreboard_page =
     initial_page [plain_element ''score-hacker'' [], plain_element ''score-security'' []]"

definition timer_page :: page where
  "timer_page = initial_page [plain_element ''timer'' []]"

definition stub_ethers :: ethers_lib where
  "stub_ethers =
     \<lparr>toUtf8Bytes = (\<lambda>s. Inr (map of_char s)),
      keccak256 = (\<lambda>b. if b = [] then Inl ''empty input'' else Inr ''0xabcd'')\<rparr>"

definition progress_page :: page where
  "progress_page =
     initial_page
       [plain_element ''step1'' [''progress-item'', ''current''],
        plain_element ''step2'' [''progress-item''],
        plain_element ''note'' [''current''],
        plain_element ''step3'' [''progress-item'', ''completed''],
        plain_element ''step4'' [''progress-item'', ''current'', ''completed'']]"

definition running_page :: page where
  "running_page = startTimer ''timer'' 31 None timer_page"

definition zero_start_page :: page where
  "zero_start_page = startTimer ''timer'' 0 None timer_page"

section \<open>Properties\<close>

subsection \<open>truncateHash\<close>

lemma substring_prefix:
  "0 \<le> n \<Longrightarrow> n \<le> int (length s) \<Longrightarrow> substring s 0 n = take (nat n) s"
proof -
  assume "0 \<le> n" and "n \<le> int (length s)"
  then have "nat n \<le> length s" by linarith
  then show ?thesis
    using \<open>0 \<le> n\<close> by (simp add: substring_def clamp_index_def Let_def)
qed

lemma substring_from_suffix:
  "0 \<le> n \<Longrightarrow> n \<le> int (length s) \<Longrightarrow> substring_from s n = drop (nat n) s"
proof -
  assume "0 \<le> n" and "n \<le> int (length s)"
  then have "nat n \<le> length s" by linarith
  then show ?thesis
    using \<open>0 \<le> n\<close> by (simp add: substring_from_def substring_def clamp_index_def Let_def)
qed

text \<open>
  Claim C8.  For a string \<open>hash\<close> and non-negative counts \<open>startChars\<close> and
  \<open>endChars\<close>: when the length of \<open>hash\<close> is strictly below
  \<open>startChars + endChars + 3\<close> the result is \<open>hash\<close> itself; when it is strictly
  above, the result is the first \<open>startChars\<close> characters, then three dots, then the
  last \<open>endChars\<close> characters of \<open>hash\<close>.
\<close>

theorem truncateHash_spec:
  assumes "0 \<le> startChars" and "0 \<le> endChars"
  shows "(int (length hash) < startChars + endChars + 3 \<longrightarrow>
            truncateHash hash startChars endChars = hash)
       \<and> (int (length hash) > startChars + endChars + 3 \<longrightarrow>
            truncateHash hash startChars endChars =
              take (nat startChars) hash @ ''...''
                @ drop (length hash - nat endChars) hash
          \<and> length (drop (length hash - nat endChars) hash) = nat endChars)"
proof (intro conjI impI)
  assume "int (length hash) < startChars + endChars + 3"
  then show "truncateHash hash startChars endChars = hash"
    by (simp add: truncateHash_def)
next
  assume long: "int (length hash) > startChars + endChars + 3"
  have a: "substring hash 0 startChars = take (nat startChars) hash"
    using assms long by (intro substring_prefix) auto
  have "substring_from hash (int (length hash) - endChars)
          = drop (nat (int (length hash) - endChars)) hash"
    using assms long by (intro substring_from_suffix) auto
  moreover have "nat (int (length hash) - endChars) = length hash - nat endChars"
    using assms by linarith
  ultimately have b: "substring_from hash (int (length hash) - endChars)
          = drop (length hash - nat endChars) hash"
    by simp
  from long a b show "truncateHash hash startChars endChars =
      take (nat startChars) hash @ ''...'' @ drop (length hash - nat endChars) hash"
    by (simp add: truncateHash_def)
  from assms long show "length (drop (length hash - nat endChars) hash) = nat endChars"
    by auto
qed

theorem truncateHash_spec_witness:
  "(0::int) \<le> 6 \<and> (0::int) \<le> 4
   \<and> int (length ''0x1234567890abcdef'') > 6 + 4 + 3
   \<and> truncateHash ''0x1234567890abcdef'' 6 4 = ''0x1234...cdef''
   \<and> int (length ''0x12345678'') < 6 + 4 + 3
   \<and> truncateHash ''0x12345678'' 6 4 = ''0x12345678''"
  using truncateHash_spec [of 6 4 "''0x1234567890abcdef''"]
        truncateHash_spec [of 6 4 "''0x12345678''"]
  by simp

subsection \<open>Scoreboard\<close>

lemma updateScoreDisplay_scores [simp]: "scores (updateScoreDisplay s) = scores s"
  by (simp add: updateScoreDisplay_def animateNumber_def Let_def split: option.splits)

lemma updateScore_scores:
  "scores (updateScore team delta s) =
     (case scores s team of None \<Rightarrow> scores s | Some x \<Rightarrow> (scores s)(team \<mapsto> x + delta))"
  by (simp add: updateScore_def split: option.splits)

lemma setScore_scores:
  "scores (setScore team v s) =
     (case scores s team of None \<Rightarrow> scores s | Some x \<Rightarrow> (scores s)(team \<mapsto> v))"
  by (simp add: setScore_def split: option.splits)

text \<open>
  Claim C1.  In a state whose score object has exactly the two own properties
  \<open>hacker\<close> and \<open>security\<close> (the initial state has, and both operations keep it so):
  for a recognised team, \<open>updateScore\<close> adds \<open>delta\<close> to that team's stored score
  and \<open>setScore\<close> stores \<open>v\<close>, the other team's score staying as it was; for any
  other key both operations leave the whole state unchanged.  From the initial state,
  \<open>updateScore hacker 5\<close> then \<open>updateScore hacker (-2)\<close> gives \<open>hacker\<close> the
  score 3, and \<open>updateScore referee 100\<close> changes nothing.
\<close>

theorem score_update_spec:
  assumes "dom (scores s) = {''hacker'', ''security''}"
  shows "(team \<in> {''hacker'', ''security''} \<longrightarrow>
           (\<exists>x. scores s team = Some x
              \<and> scores (updateScore team delta s) = (scores s)(team \<mapsto> x + delta))
           \<and> scores (setScore team v s) = (scores s)(team \<mapsto> v))
       \<and> (team \<notin> {''hacker'', ''security''} \<longrightarrow>
           updateScore team delta s = s \<and> setScore team v s = s)
       \<and> dom (scores (updateScore team delta s)) = {''hacker'', ''security''}
       \<and> dom (scores (setScore team v s)) = {''hacker'', ''security''}
       \<and> dom (scores (initial_page doc)) = {''hacker'', ''security''}
       \<and> scores (updateScore ''hacker'' (- 2) (updateScore ''hacker'' 5 (initial_page doc)))
            ''hacker'' = Some 3
       \<and> updateScore ''referee'' 100 s = s"
proof -
  have known: "team \<in> {''hacker'', ''security''} \<Longrightarrow> \<exists>x. scores s team = Some x" for team
    using assms by (metis domD)
  have unknown: "team \<notin> {''hacker'', ''security''} \<Longrightarrow> scores s team = None" for team
    using assms by (metis domIff)
  have c1: "team \<in> {''hacker'', ''security''} \<longrightarrow>
           (\<exists>x. scores s team = Some x
              \<and> scores (updateScore team delta s) = (scores s)(team \<mapsto> x + delta))
           \<and> scores (setScore team v s) = (scores s)(team \<mapsto> v)"
  proof
    assume "team \<in> {''hacker'', ''security''}"
    then obtain x where x: "scores s team = Some x" using known by blast
    then show "(\<exists>x. scores s team = Some x
              \<and> scores (updateScore team delta s) = (scores s)(team \<mapsto> x + delta))
           \<and> scores (setScore team v s) = (scores s)(team \<mapsto> v)"
      by (simp add: updateScore_scores setScore_scores)
  qed
  have c2: "team \<notin> {''hacker'', ''security''} \<longrightarrow>
           updateScore team delta s = s \<and> setScore team v s = s"
    using unknown [of team] by (simp add: updateScore_def setScore_def)
  have c3: "dom (scores (updateScore team delta s)) = {''hacker'', ''security''}"
    using assms by (auto simp: updateScore_scores split: option.splits)
  have c4: "dom (scores (setScore team v s)) = {''hacker'', ''security''}"
    using assms by (auto simp: setScore_scores split: option.splits)
  have c5: "dom (scores (initial_page doc)) = {''hacker'', ''security''}"
    by (auto simp: initial_page_def)
  have c6: "scores (updateScore ''hacker'' (- 2) (updateScore ''hacker'' 5 (initial_page doc)))
            ''hacker'' = Some 3"
    by (simp add: updateScore_scores initial_page_def)
  have c7: "updateScore ''referee'' 100 s = s"
    using unknown [of "''referee''"] by (simp add: updateScore_def)
  from c1 c2 c3 c4 c5 c6 c7 show ?thesis by blast
qed

theorem score_update_spec_witness:
  "dom (scores scoreboard_page) = {''hacker'', ''security''}
   \<and> scores (updateScore ''security'' 7 scoreboard_page) ''security'' = Some 7
   \<and> scores (updateScore ''security'' 7 scoreboard_page) ''hacker'' = Some 0
   \<and> scores (setScore ''hacker'' 4 scoreboard_page) ''hacker'' = Some 4
   \<and> updateScore ''referee'' 100 scoreboard_page = scoreboard_page
   \<and> setScore ''referee'' 100 scoreboard_page = scoreboard_page"
proof -
  have d: "dom (scores scoreboard_page) = {''hacker'', ''security''}"
    by (auto simp: scoreboard_page_def initial_page_def)
  have s0: "scores scoreboard_page = [''hacker'' \<mapsto> 0, ''security'' \<mapsto> 0]"
    by (simp add: scoreboard_page_def initial_page_def)
  from score_update_spec [OF d, of "''security''" 7 7]
       score_update_spec [OF d, of "''hacker''" 4 4]
       score_update_spec [OF d, of "''referee''" 100 100] d s0
  show ?thesis by auto
qed

subsection \<open>Challenge timer\<close>

lemma update_element_length [simp]: "length (update_element i f doc) = length doc"
  by (simp add: update_element_def)

lemma update_element_nth:
  "j < length doc \<Longrightarrow> update_element i f doc ! j = (if j = i then f (doc ! j) else doc ! j)"
  by (simp add: update_element_def)

lemma on_element_fields [simp]:
  "document (on_element i f s) = update_element i f (document s)"
  "timerInterval (on_element i f s) = timerInterval s"
  "timerSeconds (on_element i f s) = timerSeconds s"
  "intervals (on_element i f s) = intervals s"
  "last_handle (on_element i f s) = last_handle s"
  "scores (on_element i f s) = scores s"
  "merkleAnimationStep (on_element i f s) = merkleAnimationStep s"
  "console (on_element i f s) = console s"
  "completions (on_element i f s) = completions s"
  "animations (on_element i f s) = animations s"
  by (simp_all add: on_element_def)

lemma updateTimerDisplay_fields [simp]:
  "document (updateTimerDisplay d s) =
     update_element d (\<lambda>e. e\<lparr>textContent := render_time (timerSeconds s)\<rparr>) (document s)"
  "timerInterval (updateTimerDisplay d s) = timerInterval s"
  "timerSeconds (updateTimerDisplay d s) = timerSeconds s"
  "intervals (updateTimerDisplay d s) = intervals s"
  "last_handle (updateTimerDisplay d s) = last_handle s"
  "completions (updateTimerDisplay d s) = completions s"
  by (simp_all add: updateTimerDisplay_def)

lemma tick_render_fields [simp]:
  "timerInterval (tick_render cl s) = timerInterval s"
  "timerSeconds (tick_render cl s) = timerSeconds s - 1"
  "intervals (tick_render cl s) = intervals s"
  "last_handle (tick_render cl s) = last_handle s"
  "completions (tick_render cl s) = completions s"
  "length (document (tick_render cl s)) = length (document s)"
  by (simp_all add: tick_render_def)

lemma tick_colors_fields [simp]:
  "timerInterval (tick_colors cl s) = timerInterval s"
  "timerSeconds (tick_colors cl s) = timerSeconds s"
  "intervals (tick_colors cl s) = intervals s"
  "last_handle (tick_colors cl s) = last_handle s"
  "completions (tick_colors cl s) = completions s"
  "length (document (tick_colors cl s)) = length (document s)"
  by (simp_all add: tick_colors_def Let_def)

lemma tick_expire_fields [simp]:
  "timerSeconds (tick_expire cl s) = timerSeconds s"
  "last_handle (tick_expire cl s) = last_handle s"
  "length (document (tick_expire cl s)) = length (document s)"
  by (simp_all add: tick_expire_def Let_def clearInterval_def split: option.splits)

lemma tick_expire_live:
  "0 < timerSeconds s \<Longrightarrow> tick_expire cl s = s"
  by (simp add: tick_expire_def)

lemma tick_expire_done:
  "timerSeconds s \<le> 0 \<Longrightarrow> timerInterval (tick_expire cl s) = None"
  "timerSeconds s \<le> 0 \<Longrightarrow>
     intervals (tick_expire cl s) = filter (\<lambda>(k, c). Some k \<noteq> timerInterval s) (intervals s)"
  "timerSeconds s \<le> 0 \<Longrightarrow>
     completions (tick_expire cl s) =
       completions s @ (case cl_onComplete cl of None \<Rightarrow> [] | Some f \<Rightarrow> [f])"
  by (simp_all add: tick_expire_def Let_def clearInterval_def split: option.splits)

lemma single_timer_filter:
  "single_timer s \<Longrightarrow> filter (\<lambda>(k, c). Some k \<noteq> timerInterval s) (intervals s) = []"
  by (cases "intervals s"; cases "timerInterval s") (auto simp: single_timer_def)

lemma single_timer_initial: "single_timer (initial_page doc)"
  by (simp add: single_timer_def initial_page_def)

lemma single_timer_stopTimer: "single_timer s \<Longrightarrow> single_timer (stopTimer s)"
  by (cases "intervals s"; cases "timerInterval s")
     (auto simp: single_timer_def stopTimer_def clearInterval_def)

lemma single_timer_startTimer:
  "single_timer s \<Longrightarrow> single_timer (startTimer displayId seconds onComplete s)"
  by (cases "intervals s"; cases "timerInterval s")
     (auto simp: single_timer_def startTimer_def clearInterval_def setInterval_def Let_def
           split: option.splits)

lemma resetTimer_timer [simp]:
  "intervals (resetTimer displayId seconds s) = intervals (stopTimer s)"
  "timerInterval (resetTimer displayId seconds s) = timerInterval (stopTimer s)"
  by (simp_all add: resetTimer_def Let_def split: option.splits)

lemma single_timer_resetTimer:
  "single_timer s \<Longrightarrow> single_timer (resetTimer displayId seconds s)"
  using single_timer_stopTimer [of s] by (simp add: single_timer_def)

lemma single_timer_callback:
  assumes "single_timer s"
  shows "single_timer (timer_callback cl s)"
proof (cases "timerSeconds s - 1 \<le> 0")
  case True
  then have "timerSeconds (tick_render cl s) \<le> 0" by simp
  moreover have "single_timer (tick_render cl s)"
    using assms by (simp add: single_timer_def)
  ultimately show ?thesis
    using single_timer_filter [of "tick_render cl s"]
    by (simp add: timer_callback_def single_timer_def tick_expire_done)
next
  case False
  then have "tick_expire cl (tick_render cl s) = tick_render cl s"
    by (intro tick_expire_live) simp
  then show ?thesis
    using assms by (simp add: timer_callback_def single_timer_def)
qed

lemma single_timer_tick: "single_timer s \<Longrightarrow> single_timer (tick h s)"
  by (simp add: tick_def single_timer_callback split: option.splits)

lemma single_timer_step: "single_timer s \<Longrightarrow> single_timer (timer_step ev s)"
  by (cases ev)
     (simp_all add: single_timer_startTimer single_timer_stopTimer single_timer_resetTimer
        single_timer_tick)

lemma single_timer_run: "single_timer s \<Longrightarrow> single_timer (timer_run evs s)"
  unfolding timer_run_def by (induction evs arbitrary: s) (simp_all add: single_timer_step)

text \<open>
  Claim C2.  In every state reached from the initial state by any sequence of
  \<open>startTimer\<close>, \<open>stopTimer\<close> and \<open>resetTimer\<close> calls and interval firings there is
  at most one live interval, and it is the one whose handle \<open>timerInterval\<close> holds.
\<close>

theorem single_active_timer:
  "length (intervals (timer_run evs (initial_page doc))) \<le> 1
   \<and> map fst (intervals (timer_run evs (initial_page doc)))
       = (case timerInterval (timer_run evs (initial_page doc)) of None \<Rightarrow> [] | Some h \<Rightarrow> [h])"
proof -
  have "single_timer (timer_run evs (initial_page doc))"
    by (rule single_timer_run [OF single_timer_initial])
  then have m: "map fst (intervals (timer_run evs (initial_page doc)))
       = (case timerInterval (timer_run evs (initial_page doc)) of None \<Rightarrow> [] | Some h \<Rightarrow> [h])"
    by (simp add: single_timer_def)
  have "length (map fst (intervals (timer_run evs (initial_page doc)))) \<le> 1"
    unfolding m by (simp split: option.splits)
  then have "length (intervals (timer_run evs (initial_page doc))) \<le> 1"
    by (simp only: length_map)
  with m show ?thesis by blast
qed

theorem single_active_timer_witness:
  "length (intervals (timer_run [StartTimer ''timer'' 2 None, StartTimer ''timer'' 3 (Some 0), Tick 2]
             (initial_page [plain_element ''timer'' []]))) \<le> 1
   \<and> map fst (intervals (timer_run [StartTimer ''timer'' 2 None, StartTimer ''timer'' 3 (Some 0), Tick 2]
             (initial_page [plain_element ''timer'' []]))) = [2]"
proof -
  have "timerInterval (timer_run [StartTimer ''timer'' 2 None, StartTimer ''timer'' 3 (Some 0), Tick 2]
             (initial_page [plain_element ''timer'' []])) = Some 2"
    by code_simp
  with single_active_timer [of "[StartTimer ''timer'' 2 None, StartTimer ''timer'' 3 (Some 0), Tick 2]"
         "[plain_element ''timer'' []]"]
  show ?thesis by simp
qed

lemma digit_char_0: "digit_char 0 = CHR ''0''"
  by (simp add: digit_char_def)

lemma nat_toString_two_digits:
  "x < 60 \<Longrightarrow> padStart 2 (CHR ''0'') (nat_toString x) = [digit_char (x div 10), digit_char (x mod 10)]"
proof -
  assume x: "x < 60"
  show ?thesis
  proof (cases "x < 10")
    case True
    then show ?thesis
      by (simp add: nat_toString.simps [of x] padStart_def digit_char_0)
  next
    case False
    with x have "x div 10 < 10" by simp
    then have "nat_toString (x div 10) = [digit_char (x div 10)]"
      by (simp add: nat_toString.simps [of "x div 10"])
    with False show ?thesis
      by (simp add: nat_toString.simps [of x] padStart_def)
  qed
qed

lemma render_time_nonneg:
  assumes "0 \<le> t"
  shows "render_time t =
           nat_toString (nat (t div 60)) @ '':''
             @ [digit_char (nat (t mod 60) div 10), digit_char (nat (t mod 60) mod 10)]"
proof -
  have a: "0 \<le> t div 60" using assms by (simp add: pos_imp_zdiv_nonneg_iff)
  have b: "0 \<le> t mod 60" "t mod 60 < 60" by simp_all
  then have c: "nat (t mod 60) < 60" by linarith
  have "js_toString (js_floor_div t 60) = nat_toString (nat (t div 60))"
    using a by (simp add: js_toString_def js_floor_div_def)
  moreover have "js_toString (js_rem t 60) = nat_toString (nat (t mod 60))"
    using assms b by (simp add: js_toString_def js_rem_def)
  ultimately show ?thesis
    using nat_toString_two_digits [OF c] by (simp add: render_time_def Let_def)
qed

lemma digit_char_is_digit: "d < 10 \<Longrightarrow> is_digit_char (digit_char d)"
  unfolding is_digit_char_def digit_char_def by (rule nth_mem) simp

lemma nat_toString_digits: "nat_toString n \<noteq> [] \<and> list_all is_digit_char (nat_toString n)"
proof (induction n rule: nat_toString.induct)
  case (1 n)
  show ?case
  proof (cases "n < 10")
    case True
    then show ?thesis
      by (simp add: nat_toString.simps [of n] digit_char_is_digit)
  next
    case False
    with 1 have "nat_toString (n div 10) \<noteq> [] \<and> list_all is_digit_char (nat_toString (n div 10))"
      by simp
    with False show ?thesis
      by (simp add: nat_toString.simps [of n] digit_char_is_digit)
  qed
qed

lemma render_time_shape:
  assumes "0 \<le> t"
  shows "is_minutes_seconds (render_time t)"
proof -
  have "nat (t mod 60) < 60" by simp
  then have d: "nat (t mod 60) div 10 < 10" "nat (t mod 60) mod 10 < 10" by simp_all
  show ?thesis
    unfolding render_time_nonneg [OF assms] is_minutes_seconds_def
    using nat_toString_digits [of "nat (t div 60)"] d
    by (simp add: digit_char_is_digit list_all_iff)
qed

lemma tick_render_doc:
  "d < length (document s) \<Longrightarrow>
     document (tick_render cl s) ! d =
       (if d = cl_display cl then (document s ! d)\<lparr>textContent := render_time (timerSeconds s - 1)\<rparr>
        else document s ! d)"
  by (simp add: tick_render_def update_element_nth)

lemma tick_expire_doc:
  "d < length (document s) \<Longrightarrow>
     document (tick_expire cl s) ! d =
       (if d = cl_display cl \<and> timerSeconds s \<le> 0
        then (document s ! d)\<lparr>textContent := ''TIME'S UP!'', style_animation := ''pulse 0.5s infinite''\<rparr>
        else document s ! d)"
  by (simp add: tick_expire_def Let_def update_element_nth clearInterval_def split: option.splits)

lemma tick_colors_doc:
  "d < length (document s) \<Longrightarrow>
     document (tick_colors cl s) ! d =
       (if d = cl_display cl \<and> timerSeconds s \<le> 10 then (document s ! d)\<lparr>style_color := ''#ef4444''\<rparr>
        else if d = cl_display cl \<and> timerSeconds s = 30 then (document s ! d)\<lparr>style_color := ''#f59e0b''\<rparr>
        else document s ! d)"
  by (simp add: tick_colors_def Let_def update_element_nth)

lemma update_element_idem:
  "(\<And>e. f (f e) = f e) \<Longrightarrow> update_element i f (update_element i f doc) = update_element i f doc"
  by (simp add: update_element_def)

lemma tick_colors_idem: "tick_colors cl (tick_colors cl s) = tick_colors cl s"
  by (simp add: tick_colors_def Let_def on_element_def update_element_idem)

lemma timer_callback_doc:
  assumes "d < length (document s)" and "d = cl_display cl"
  shows "document (timer_callback cl s) ! d =
    (let t = timerSeconds s - 1 in
     (document s ! d)
       \<lparr>textContent := (if t \<le> 0 then ''TIME'S UP!'' else render_time t),
        style_color := (if t \<le> 10 then ''#ef4444'' else if t = 30 then ''#f59e0b''
                        else style_color (document s ! d)),
        style_animation := (if t \<le> 0 then ''pulse 0.5s infinite''
                        else style_animation (document s ! d))\<rparr>)"
  using assms
  by (simp add: timer_callback_def tick_colors_doc tick_expire_doc tick_render_doc Let_def)

lemma first_index_less: "first_index P xs = Some i \<Longrightarrow> i < length xs"
  by (induction xs arbitrary: i) (auto split: if_splits)

lemma getElementById_less: "getElementById doc ident = Some i \<Longrightarrow> i < length doc"
  by (auto simp: getElementById_def first_index_less split: if_splits)

lemma startTimer_found:
  assumes "single_timer s" and "getElementById (document s) displayId = Some d"
  shows "intervals (startTimer displayId seconds onComplete s)
           = [(Suc (last_handle s), \<lparr>cl_display = d, cl_onComplete = onComplete\<rparr>)]"
    and "timerInterval (startTimer displayId seconds onComplete s) = Some (Suc (last_handle s))"
    and "timerSeconds (startTimer displayId seconds onComplete s) = seconds"
    and "completions (startTimer displayId seconds onComplete s) = completions s"
    and "length (document (startTimer displayId seconds onComplete s)) = length (document s)"
  using assms single_timer_filter [OF assms(1)]
  by (cases "timerInterval s";
      simp add: startTimer_def setInterval_def clearInterval_def Let_def single_timer_def)+

lemma tick_live:
  assumes "intervals s = [(h, cl)]" and "timerInterval s = Some h" and "1 < timerSeconds s"
  shows "intervals (tick h s) = [(h, cl)] \<and> timerInterval (tick h s) = Some h
       \<and> timerSeconds (tick h s) = timerSeconds s - 1
       \<and> completions (tick h s) = completions s
       \<and> length (document (tick h s)) = length (document s)"
proof -
  have "tick_expire cl (tick_render cl s) = tick_render cl s"
    using assms(3) by (intro tick_expire_live) simp
  then show ?thesis
    using assms by (simp add: tick_def timer_callback_def)
qed

lemma ticks_live:
  assumes "intervals s = [(h, cl)]" and "timerInterval s = Some h" and "int k < timerSeconds s"
  shows "intervals ((tick h ^^ k) s) = [(h, cl)] \<and> timerInterval ((tick h ^^ k) s) = Some h
       \<and> timerSeconds ((tick h ^^ k) s) = timerSeconds s - int k
       \<and> completions ((tick h ^^ k) s) = completions s
       \<and> length (document ((tick h ^^ k) s)) = length (document s)"
  using assms(3)
proof (induction k)
  case 0
  then show ?case using assms(1,2) by simp
next
  case (Suc k)
  then have ih: "intervals ((tick h ^^ k) s) = [(h, cl)] \<and> timerInterval ((tick h ^^ k) s) = Some h
       \<and> timerSeconds ((tick h ^^ k) s) = timerSeconds s - int k
       \<and> completions ((tick h ^^ k) s) = completions s
       \<and> length (document ((tick h ^^ k) s)) = length (document s)"
    by simp
  from Suc.prems ih have "1 < timerSeconds ((tick h ^^ k) s)" by simp
  with ih tick_live [of "(tick h ^^ k) s" h cl] show ?case by simp
qed

lemma tick_final:
  assumes "intervals s = [(h, cl)]" and "timerInterval s = Some h" and "timerSeconds s = 1"
    and "cl_display cl < length (document s)"
  shows "intervals (tick h s) = [] \<and> timerInterval (tick h s) = None
       \<and> timerSeconds (tick h s) = 0
       \<and> completions (tick h s) = completions s @ (case cl_onComplete cl of None \<Rightarrow> [] | Some f \<Rightarrow> [f])
       \<and> textContent (document (tick h s) ! cl_display cl) = ''TIME'S UP!''
       \<and> style_animation (document (tick h s) ! cl_display cl) = ''pulse 0.5s infinite''"
proof -
  have t: "tick h s = timer_callback cl s"
    using assms(1) by (simp add: tick_def)
  have r: "timerSeconds (tick_render cl s) \<le> 0" using assms(3) by simp
  have 1: "intervals (tick h s) = []" "timerInterval (tick h s) = None"
    "completions (tick h s) = completions s @ (case cl_onComplete cl of None \<Rightarrow> [] | Some f \<Rightarrow> [f])"
    unfolding t timer_callback_def using assms(1,2) r by (simp_all add: tick_expire_done)
  have 2: "timerSeconds (tick h s) = 0"
    unfolding t timer_callback_def using assms(3) by simp
  have 3: "textContent (document (tick h s) ! cl_display cl) = ''TIME'S UP!''"
     "style_animation (document (tick h s) ! cl_display cl) = ''pulse 0.5s infinite''"
    unfolding t using assms(3,4) by (simp_all add: timer_callback_doc Let_def)
  from 1 2 3 show ?thesis by blast
qed

lemma tick_idle: "intervals s = [] \<Longrightarrow> tick h s = s"
  by (simp add: tick_def)

lemma tick_color_kept:
  assumes "intervals s = [(h, cl)]" and "cl_display cl < length (document s)"
    and "10 < timerSeconds s - 1" and "timerSeconds s - 1 \<noteq> 30"
  shows "style_color (document (tick h s) ! cl_display cl) = style_color (document s ! cl_display cl)"
proof -
  have "tick h s = timer_callback cl s" using assms(1) by (simp add: tick_def)
  then show ?thesis
    using assms(2-4) by (simp add: timer_callback_doc Let_def)
qed

lemma ticks_color_kept:
  assumes "intervals s = [(h, cl)]" and "timerInterval s = Some h"
    and "cl_display cl < length (document s)"
    and "timerSeconds s \<le> 30" and "10 < timerSeconds s - int k"
  shows "style_color (document ((tick h ^^ k) s) ! cl_display cl)
           = style_color (document s ! cl_display cl)"
  using assms(5)
proof (induction k)
  case 0
  then show ?case by simp
next
  case (Suc k)
  then have k: "int k < timerSeconds s" "10 < timerSeconds s - int k" by simp_all
  note L = ticks_live [OF assms(1,2) k(1)]
  have ih: "style_color (document ((tick h ^^ k) s) ! cl_display cl)
           = style_color (document s ! cl_display cl)"
    using Suc.IH k(2) by simp
  have "style_color (document (tick h ((tick h ^^ k) s)) ! cl_display cl)
          = style_color (document ((tick h ^^ k) s) ! cl_display cl)"
    using L assms(3,4) Suc.prems by (intro tick_color_kept) simp_all
  with ih show ?case by simp
qed

text \<open>
  Claim C4, amended.  A tick of a live interval runs the decrement and re-rendering, then
  the expiry block, then the colour checks.  It lowers the remaining seconds by one and
  re-renders the new value; when the new value is not negative the rendered text is the
  minutes, a colon, and the seconds as exactly two digits.  Afterwards the display colour
  is the danger tone when the remaining seconds are at most 10, the warning tone when they
  are exactly 30, and otherwise what it was before the tick.  Running the colour checks
  again changes nothing.  A colour set by a tick that leaves at most 30 seconds stays through
  all further ticks that leave more than 10 seconds: the warning tone set at 30 is still
  there at 11.
\<close>

theorem tick_spec:
  assumes "map_of (intervals s) h = Some cl" and "cl_display cl < length (document s)"
  shows "tick h s = tick_colors cl (tick_expire cl (tick_render cl s))
   \<and> timerSeconds (tick h s) = timerSeconds s - 1
   \<and> textContent (document (tick_render cl s) ! cl_display cl) = render_time (timerSeconds s - 1)
   \<and> (0 \<le> timerSeconds s - 1 \<longrightarrow>
        render_time (timerSeconds s - 1) =
          nat_toString (nat ((timerSeconds s - 1) div 60)) @ '':''
            @ [digit_char (nat ((timerSeconds s - 1) mod 60) div 10),
               digit_char (nat ((timerSeconds s - 1) mod 60) mod 10)])
   \<and> (0 \<le> timerSeconds s - 1 \<longrightarrow> is_minutes_seconds (render_time (timerSeconds s - 1)))
   \<and> style_color (document (tick h s) ! cl_display cl) =
        (if timerSeconds s - 1 \<le> 10 then ''#ef4444''
         else if timerSeconds s - 1 = 30 then ''#f59e0b''
         else style_color (document s ! cl_display cl))
   \<and> tick_colors cl (tick h s) = tick h s
   \<and> (\<forall>k. intervals s = [(h, cl)] \<and> timerInterval s = Some h
          \<and> timerSeconds s - 1 \<le> 30 \<and> 10 < timerSeconds s - 1 - int k
        \<longrightarrow> style_color (document ((tick h ^^ k) (tick h s)) ! cl_display cl)
              = style_color (document (tick h s) ! cl_display cl))"
proof -
  have t: "tick h s = timer_callback cl s"
    using assms(1) by (simp add: tick_def)
  have c1: "tick h s = tick_colors cl (tick_expire cl (tick_render cl s))"
    using t by (simp add: timer_callback_def)
  have c2: "timerSeconds (tick h s) = timerSeconds s - 1"
    unfolding c1 by simp
  have c3: "textContent (document (tick_render cl s) ! cl_display cl) = render_time (timerSeconds s - 1)"
    using assms(2) by (simp add: tick_render_doc)
  have c4: "0 \<le> timerSeconds s - 1 \<longrightarrow>
        render_time (timerSeconds s - 1) =
          nat_toString (nat ((timerSeconds s - 1) div 60)) @ '':''
            @ [digit_char (nat ((timerSeconds s - 1) mod 60) div 10),
               digit_char (nat ((timerSeconds s - 1) mod 60) mod 10)]"
    using render_time_nonneg by blast
  have c4': "0 \<le> timerSeconds s - 1 \<longrightarrow> is_minutes_seconds (render_time (timerSeconds s - 1))"
    using render_time_shape by blast
  have c5: "style_color (document (tick h s) ! cl_display cl) =
        (if timerSeconds s - 1 \<le> 10 then ''#ef4444''
         else if timerSeconds s - 1 = 30 then ''#f59e0b''
         else style_color (document s ! cl_display cl))"
    unfolding t using assms(2) by (simp add: timer_callback_doc Let_def)
  have c6: "tick_colors cl (tick h s) = tick h s"
    unfolding c1 by (rule tick_colors_idem)
  have c7: "\<forall>k. intervals s = [(h, cl)] \<and> timerInterval s = Some h
          \<and> timerSeconds s - 1 \<le> 30 \<and> 10 < timerSeconds s - 1 - int k
        \<longrightarrow> style_color (document ((tick h ^^ k) (tick h s)) ! cl_display cl)
              = style_color (document (tick h s) ! cl_display cl)"
  proof (intro allI impI)
    fix k
    assume a: "intervals s = [(h, cl)] \<and> timerInterval s = Some h
          \<and> timerSeconds s - 1 \<le> 30 \<and> 10 < timerSeconds s - 1 - int k"
    then have "1 < timerSeconds s" by linarith
    with a have L: "intervals (tick h s) = [(h, cl)] \<and> timerInterval (tick h s) = Some h
       \<and> timerSeconds (tick h s) = timerSeconds s - 1
       \<and> completions (tick h s) = completions s
       \<and> length (document (tick h s)) = length (document s)"
      by (intro tick_live) simp_all
    with a assms(2) show "style_color (document ((tick h ^^ k) (tick h s)) ! cl_display cl)
              = style_color (document (tick h s) ! cl_display cl)"
      by (intro ticks_color_kept) simp_all
  qed
  from c1 c2 c3 c4 c4' c5 c6 c7 show ?thesis by blast
qed

theorem tick_spec_witness:
  "map_of (intervals running_page) 1 = Some \<lparr>cl_display = 0, cl_onComplete = None\<rparr>
   \<and> (0::nat) < length (document running_page)
   \<and> timerSeconds (tick 1 running_page) = 30
   \<and> textContent (document (tick 1 running_page) ! 0) = ''0:30''
   \<and> style_color (document (tick 1 running_page) ! 0) = ''#f59e0b''
   \<and> style_color (document ((tick 1 ^^ 19) (tick 1 running_page)) ! 0) = ''#f59e0b''"
proof -
  have a: "map_of (intervals running_page) 1 = Some \<lparr>cl_display = 0, cl_onComplete = None\<rparr>"
    by code_simp
  have b: "cl_display \<lparr>cl_display = 0, cl_onComplete = None\<rparr> < length (document running_page)"
    by code_simp
  have c: "timerSeconds running_page = 31" by code_simp
  have d: "textContent (document (tick 1 running_page) ! 0) = ''0:30''" by code_simp
  note T = tick_spec [OF a b]
  from T have t1: "timerSeconds (tick 1 running_page) = timerSeconds running_page - 1"
    by blast
  from T have t2: "style_color (document (tick 1 running_page) ! cl_display \<lparr>cl_display = 0, cl_onComplete = None\<rparr>) =
        (if timerSeconds running_page - 1 \<le> 10 then ''#ef4444''
         else if timerSeconds running_page - 1 = 30 then ''#f59e0b''
         else style_color (document running_page ! cl_display \<lparr>cl_display = 0, cl_onComplete = None\<rparr>))"
    by blast
  have e: "intervals running_page = [(1, \<lparr>cl_display = 0, cl_onComplete = None\<rparr>)]"
    "timerInterval running_page = Some 1"
    by code_simp+
  from T have "\<forall>k. intervals running_page = [(1, \<lparr>cl_display = 0, cl_onComplete = None\<rparr>)]
          \<and> timerInterval running_page = Some 1
          \<and> timerSeconds running_page - 1 \<le> 30 \<and> 10 < timerSeconds running_page - 1 - int k
        \<longrightarrow> style_color (document ((tick 1 ^^ k) (tick 1 running_page))
                ! cl_display \<lparr>cl_display = 0, cl_onComplete = None\<rparr>)
              = style_color (document (tick 1 running_page)
                ! cl_display \<lparr>cl_display = 0, cl_onComplete = None\<rparr>)"
    by blast
  from this [rule_format, of 19] c e
  have t3: "style_color (document ((tick 1 ^^ 19) (tick 1 running_page)) ! 0)
              = style_color (document (tick 1 running_page) ! 0)"
    by simp
  from a b c d t1 t2 t3 show ?thesis by simp
qed

text \<open>
  Claim C4 as stated fails on the tick that follows a start with zero seconds: the interval
  is live, the decrement stores \<open>-1\<close>, and the re-rendering writes \<open>-1:-1\<close>, which
  is not minutes, a colon and two digits of seconds.
\<close>

theorem tick_render_negative_counterexample:
  "map_of (intervals zero_start_page) 1 = Some \<lparr>cl_display = 0, cl_onComplete = None\<rparr>
   \<and> cl_display \<lparr>cl_display = 0, cl_onComplete = None\<rparr> < length (document zero_start_page)
   \<and> timerSeconds (tick 1 zero_start_page) = - 1
   \<and> textContent (document (tick_render \<lparr>cl_display = 0, cl_onComplete = None\<rparr> zero_start_page) ! 0)
        = ''-1:-1''
   \<and> \<not> is_minutes_seconds ''-1:-1''"
  by code_simp

text \<open>
  Claim C3.  Starting a timer with \<open>n > 0\<close> seconds on an existing display: before the
  \<open>n\<close>-th tick the timer is running, the remaining seconds are \<open>n\<close> minus the number
  of ticks, and the callback has not been called; after exactly \<open>n\<close> ticks the remaining
  seconds are zero, no interval is live (any further firing changes nothing), the display
  reads \<open>TIME'S UP!\<close> with the pulse animation, and the completion callback, when one
  was given, has been called exactly once.  In the last tick the display is re-rendered as
  \<open>0:00\<close> before the expiry block replaces the text.
\<close>

theorem countdown_expiry:
  fixes n :: nat and onComplete :: "nat option" and s :: page and d :: nat
  assumes "single_timer s" and "getElementById (document s) displayId = Some d" and "0 < n"
  defines "h \<equiv> Suc (last_handle s)"
  defines "cl \<equiv> \<lparr>cl_display = d, cl_onComplete = onComplete\<rparr>"
  defines "s0 \<equiv> startTimer displayId (int n) onComplete s"
  shows "timerSeconds ((tick h ^^ n) s0) = 0
       \<and> timerInterval ((tick h ^^ n) s0) = None
       \<and> intervals ((tick h ^^ n) s0) = []
       \<and> (\<forall>h'. tick h' ((tick h ^^ n) s0) = (tick h ^^ n) s0)
       \<and> textContent (document ((tick h ^^ n) s0) ! d) = ''TIME'S UP!''
       \<and> style_animation (document ((tick h ^^ n) s0) ! d) = ''pulse 0.5s infinite''
       \<and> completions ((tick h ^^ n) s0)
            = completions s @ (case onComplete of None \<Rightarrow> [] | Some f \<Rightarrow> [f])
       \<and> (\<forall>k<n. timerSeconds ((tick h ^^ k) s0) = int n - int k
                 \<and> timerInterval ((tick h ^^ k) s0) = Some h
                 \<and> completions ((tick h ^^ k) s0) = completions s)
       \<and> textContent (document (tick_render cl ((tick h ^^ (n - 1)) s0)) ! d) = ''0:00''"
proof -
  have d: "d < length (document s)"
    using assms(2) by (rule getElementById_less)
  have s0: "intervals s0 = [(h, cl)]" "timerInterval s0 = Some h" "timerSeconds s0 = int n"
    "completions s0 = completions s" "length (document s0) = length (document s)"
    unfolding s0_def h_def cl_def using startTimer_found [OF assms(1,2)] by simp_all
  have live: "intervals ((tick h ^^ k) s0) = [(h, cl)] \<and> timerInterval ((tick h ^^ k) s0) = Some h
       \<and> timerSeconds ((tick h ^^ k) s0) = int n - int k
       \<and> completions ((tick h ^^ k) s0) = completions s
       \<and> length (document ((tick h ^^ k) s0)) = length (document s)" if "k < n" for k
    using ticks_live [of s0 h cl k] s0 that by simp
  obtain m where n: "n = Suc m" using assms(3) by (cases n) auto
  define sm where "sm = (tick h ^^ m) s0"
  have sm: "intervals sm = [(h, cl)]" "timerInterval sm = Some h" "timerSeconds sm = 1"
    "completions sm = completions s" "length (document sm) = length (document s)"
    unfolding sm_def using live [of m] n by simp_all
  have fin: "(tick h ^^ n) s0 = tick h sm"
    by (simp add: n sm_def)
  have dcl: "cl_display cl = d" "cl_onComplete cl = onComplete" by (simp_all add: cl_def)
  have last: "intervals (tick h sm) = [] \<and> timerInterval (tick h sm) = None
       \<and> timerSeconds (tick h sm) = 0
       \<and> completions (tick h sm) = completions sm @ (case cl_onComplete cl of None \<Rightarrow> [] | Some f \<Rightarrow> [f])
       \<and> textContent (document (tick h sm) ! cl_display cl) = ''TIME'S UP!''
       \<and> style_animation (document (tick h sm) ! cl_display cl) = ''pulse 0.5s infinite''"
    using sm d dcl by (intro tick_final) simp_all
  have idle: "\<forall>h'. tick h' ((tick h ^^ n) s0) = (tick h ^^ n) s0"
    unfolding fin using last by (simp add: tick_idle)
  have zero: "textContent (document (tick_render cl ((tick h ^^ (n - 1)) s0)) ! d) = ''0:00''"
  proof -
    have "(tick h ^^ (n - 1)) s0 = sm" by (simp add: n sm_def)
    moreover have "render_time 0 = ''0:00''" by code_simp
    ultimately show ?thesis
      using sm d dcl by (simp add: tick_render_doc)
  qed
  from last idle zero live sm(4) dcl show ?thesis
    unfolding fin by simp
qed

theorem countdown_expiry_witness:
  "single_timer timer_page \<and> getElementById (document timer_page) ''timer'' = Some 0 \<and> (0::nat) < 5
   \<and> timerSeconds ((tick 1 ^^ 5) (startTimer ''timer'' 5 (Some 7) timer_page)) = 0
   \<and> timerInterval ((tick 1 ^^ 5) (startTimer ''timer'' 5 (Some 7) timer_page)) = None
   \<and> textContent (document ((tick 1 ^^ 5) (startTimer ''timer'' 5 (Some 7) timer_page)) ! 0) = ''TIME'S UP!''
   \<and> completions ((tick 1 ^^ 5) (startTimer ''timer'' 5 (Some 7) timer_page)) = [7]
   \<and> completions ((tick 1 ^^ 4) (startTimer ''timer'' 5 (Some 7) timer_page)) = []
   \<and> textContent (document (tick_render \<lparr>cl_display = 0, cl_onComplete = Some 7\<rparr>
         ((tick 1 ^^ 4) (startTimer ''timer'' 5 (Some 7) timer_page))) ! 0) = ''0:00''"
proof -
  have a: "single_timer timer_page" by code_simp
  have b: "getElementById (document timer_page) ''timer'' = Some 0" by code_simp
  have c: "(0::nat) < 5" by simp
  have d: "last_handle timer_page = 0" "completions timer_page = []" by code_simp+
  from countdown_expiry [OF a b c, of "Some 7"] a b d
  show ?thesis by simp
qed

lemma countdown_inv_initial: "countdown_inv (initial_page doc)"
  by (simp add: countdown_inv_def single_timer_initial) (simp add: initial_page_def)

lemma startTimer_missing: "getElementById (document s) displayId = None \<Longrightarrow> startTimer displayId seconds onComplete s = s"
  by (simp add: startTimer_def)

lemma countdown_inv_startTimer:
  assumes "countdown_inv s" and "1 \<le> seconds"
  shows "countdown_inv (startTimer displayId seconds onComplete s)"
proof (cases "getElementById (document s) displayId")
  case None
  then show ?thesis using assms(1) by (simp add: startTimer_missing)
next
  case (Some d)
  from assms(1) have st: "single_timer s" by (simp add: countdown_inv_def)
  show ?thesis
    using startTimer_found [OF st Some, of seconds onComplete] assms(2)
      single_timer_startTimer [OF st, of displayId seconds onComplete]
    by (simp add: countdown_inv_def)
qed

lemma stopTimer_fields [simp]:
  "timerInterval (stopTimer s) = None"
  "timerSeconds (stopTimer s) = timerSeconds s"
  "document (stopTimer s) = document s"
  by (simp_all add: stopTimer_def clearInterval_def split: option.splits)

lemma countdown_inv_stopTimer: "countdown_inv s \<Longrightarrow> countdown_inv (stopTimer s)"
  by (simp add: countdown_inv_def single_timer_stopTimer)

lemma resetTimer_seconds:
  "timerSeconds (resetTimer displayId seconds s) =
     (case getElementById (document s) displayId of None \<Rightarrow> timerSeconds s | Some d \<Rightarrow> seconds)"
  by (simp add: resetTimer_def Let_def split: option.splits)

lemma countdown_inv_resetTimer:
  "countdown_inv s \<Longrightarrow> 0 \<le> seconds \<Longrightarrow> countdown_inv (resetTimer displayId seconds s)"
  by (simp add: countdown_inv_def single_timer_resetTimer resetTimer_seconds split: option.splits)

lemma countdown_inv_tick:
  assumes "countdown_inv s"
  shows "countdown_inv (tick h s)"
proof (cases "map_of (intervals s) h")
  case None
  then show ?thesis using assms by (simp add: tick_def)
next
  case (Some cl)
  then have "intervals s \<noteq> []" by auto
  then have live: "timerInterval s \<noteq> None"
    using assms by (cases "timerInterval s") (simp_all add: countdown_inv_def single_timer_def)
  with assms have pos: "1 \<le> timerSeconds s" by (simp add: countdown_inv_def)
  have t: "tick h s = timer_callback cl s" using Some by (simp add: tick_def)
  have st: "single_timer (timer_callback cl s)"
    using assms by (simp add: countdown_inv_def single_timer_callback)
  have secs: "timerSeconds (timer_callback cl s) = timerSeconds s - 1"
    by (simp add: timer_callback_def)
  have "timerInterval (timer_callback cl s) \<noteq> None \<longrightarrow> 1 \<le> timerSeconds s - 1"
  proof (cases "timerSeconds s - 1 \<le> 0")
    case True
    then have "timerSeconds (tick_render cl s) \<le> 0" by simp
    then show ?thesis by (simp add: timer_callback_def tick_expire_done)
  next
    case False
    then show ?thesis by simp
  qed
  with st secs pos show ?thesis unfolding t by (simp add: countdown_inv_def)
qed

lemma countdown_inv_step:
  "countdown_inv s \<Longrightarrow> positive_start ev \<Longrightarrow> countdown_inv (timer_step ev s)"
  by (cases ev)
     (simp_all add: countdown_inv_startTimer countdown_inv_stopTimer countdown_inv_resetTimer
        countdown_inv_tick)

lemma countdown_inv_run:
  "countdown_inv s \<Longrightarrow> list_all positive_start evs \<Longrightarrow> countdown_inv (timer_run evs s)"
  unfolding timer_run_def by (induction evs arbitrary: s) (simp_all add: countdown_inv_step)

text \<open>
  Claim C5, amended.  For every sequence of \<open>startTimer\<close> calls with at least one
  second, \<open>resetTimer\<close> calls with non-negative seconds, \<open>stopTimer\<close> calls and interval
  firings, the stored remaining seconds are never negative.
\<close>

theorem remaining_seconds_nonneg:
  assumes "list_all positive_start evs"
  shows "0 \<le> timerSeconds (timer_run evs (initial_page doc))"
  using countdown_inv_run [OF countdown_inv_initial assms] by (simp add: countdown_inv_def)

text \<open>
  Claim C5 as stated fails for a start with zero seconds: the first tick decrements before
  it tests for expiry and stores \<open>-1\<close>.
\<close>

theorem remaining_seconds_negative_counterexample:
  "list_all nonneg_seconds [StartTimer ''timer'' 0 None, Tick 1]
   \<and> timerSeconds (timer_run [StartTimer ''timer'' 0 None, Tick 1] timer_page) = - 1"
  by code_simp

theorem remaining_seconds_nonneg_witness:
  "list_all positive_start [StartTimer ''timer'' 2 None, Tick 1, Tick 1, Tick 1, ResetTimer ''timer'' 0, Tick 1]
   \<and> timerSeconds (timer_run [StartTimer ''timer'' 2 None, Tick 1, Tick 1, Tick 1, ResetTimer ''timer'' 0, Tick 1]
        (initial_page [plain_element ''timer'' []])) = 0"
proof -
  have a: "list_all positive_start [StartTimer ''timer'' 2 None, Tick 1, Tick 1, Tick 1, ResetTimer ''timer'' 0, Tick 1]"
    by simp
  have b: "timerSeconds (timer_run [StartTimer ''timer'' 2 None, Tick 1, Tick 1, Tick 1, ResetTimer ''timer'' 0, Tick 1]
        (initial_page [plain_element ''timer'' []])) \<le> 0"
    by code_simp
  from remaining_seconds_nonneg [OF a, of "[plain_element ''timer'' []]"] a b show ?thesis by simp
qed

subsection \<open>Stopping the timer, hashing\<close>

text \<open>
  Claim C10.  \<open>stopTimer\<close> clears the handle and cancels that interval, and changes
  nothing else: the remaining seconds and the document (text, colour and animation of the
  display included) are as before.  A second call changes nothing, and neither does a call
  when no handle is stored.
\<close>

theorem stopTimer_frame:
  "stopTimer s =
     s\<lparr>timerInterval := None,
       intervals := filter (\<lambda>(k, cl). Some k \<noteq> timerInterval s) (intervals s)\<rparr>
   \<and> timerInterval (stopTimer s) = None
   \<and> timerSeconds (stopTimer s) = timerSeconds s
   \<and> document (stopTimer s) = document s
   \<and> stopTimer (stopTimer s) = stopTimer s
   \<and> (timerInterval s = None \<longrightarrow> stopTimer s = s)"
  by (cases "timerInterval s") (simp_all add: stopTimer_def clearInterval_def)

theorem stopTimer_frame_witness:
  "timerInterval running_page = Some 1
   \<and> timerInterval (stopTimer running_page) = None
   \<and> intervals (stopTimer running_page) = []
   \<and> timerSeconds (stopTimer running_page) = 31
   \<and> document (stopTimer running_page) = document running_page
   \<and> timerInterval timer_page = None
   \<and> stopTimer timer_page = timer_page"
proof -
  have a: "timerInterval running_page = Some 1" "timerSeconds running_page = 31"
    "intervals (stopTimer running_page) = []" "timerInterval timer_page = None"
    by code_simp+
  from stopTimer_frame [of running_page] stopTimer_frame [of timer_page] a
  show ?thesis by simp
qed

text \<open>
  Claim C7.  \<open>computeKeccakHash\<close> always returns a string and never an exception: the
  missing-library message when \<open>ethers\<close> is undefined, the computation-error message when
  the encoding or the hashing throws, and otherwise the hash the library returns for the
  UTF-8 bytes of the input.  The two messages differ.
\<close>

theorem computeKeccakHash_spec:
  "(ethers = None \<longrightarrow>
      fst (computeKeccakHash ethers input s) = Inr ''Error: ethers.js not loaded'')
   \<and> (\<forall>lib err. ethers = Some lib
         \<and> (toUtf8Bytes lib input = Inl err
            \<or> (\<exists>bytes. toUtf8Bytes lib input = Inr bytes \<and> keccak256 lib bytes = Inl err))
        \<longrightarrow> fst (computeKeccakHash ethers input s) = Inr ''Error computing hash'')
   \<and> (\<forall>lib bytes hash. ethers = Some lib
         \<and> toUtf8Bytes lib input = Inr bytes \<and> keccak256 lib bytes = Inr hash
        \<longrightarrow> computeKeccakHash ethers input s = (Inr hash, s))
   \<and> (\<exists>r. fst (computeKeccakHash ethers input s) = Inr r)
   \<and> ''Error: ethers.js not loaded'' \<noteq> ''Error computing hash''"
  by (auto simp: computeKeccakHash_def hash_call_def split: option.splits sum.splits)

theorem computeKeccakHash_spec_witness:
  "fst (computeKeccakHash None ''abc'' (initial_page [])) = Inr ''Error: ethers.js not loaded''
   \<and> fst (computeKeccakHash (Some stub_ethers) [] (initial_page [])) = Inr ''Error computing hash''
   \<and> fst (computeKeccakHash (Some stub_ethers) ''abc'' (initial_page [])) = Inr ''0xabcd''"
  using computeKeccakHash_spec [of None "''abc''" "initial_page []"]
        computeKeccakHash_spec [of "Some stub_ethers" "[]" "initial_page []"]
        computeKeccakHash_spec [of "Some stub_ethers" "''abc''" "initial_page []"]
  by (simp add: stub_ethers_def)

subsection \<open>Progress tracker and missing elements\<close>

lemma forEach_length [simp]: "length (forEach js f doc) = length doc"
  unfolding forEach_def by (induction js arbitrary: doc) simp_all

lemma forEach_nth:
  "distinct js \<Longrightarrow> j < length doc \<Longrightarrow>
     forEach js f doc ! j = (if j \<in> set js then f (doc ! j) else doc ! j)"
  unfolding forEach_def
proof (induction js arbitrary: doc)
  case Nil
  then show ?case by simp
next
  case (Cons a js)
  then show ?case by (auto simp: update_element_nth)
qed

lemma querySelectorAll_set:
  "j \<in> set (querySelectorAll doc cs) \<longleftrightarrow> j < length doc \<and> matches cs (doc ! j)"
  by (auto simp: querySelectorAll_def)

lemma querySelectorAll_distinct: "distinct (querySelectorAll doc cs)"
  by (simp add: querySelectorAll_def)

lemma first_index_map: "first_index (\<lambda>e. g e = x) xs = first_index (\<lambda>y. y = x) (map g xs)"
  by (induction xs) simp_all

lemma getElementById_ids:
  "map el_id doc' = map el_id doc \<Longrightarrow> getElementById doc' ident = getElementById doc ident"
  by (simp add: getElementById_def first_index_map [of el_id])

lemma update_element_ids:
  "(\<And>e. el_id (f e) = el_id e) \<Longrightarrow> map el_id (update_element i f doc) = map el_id doc"
  by (simp add: update_element_def map_update list_update_same_conv)

lemma forEach_ids:
  "(\<And>e. el_id (f e) = el_id e) \<Longrightarrow> map el_id (forEach js f doc) = map el_id doc"
  unfolding forEach_def by (induction js arbitrary: doc) (simp_all add: update_element_ids)

lemma classList_remove_id [simp]: "el_id (classList_remove c e) = el_id e"
  by (simp add: classList_remove_def)

lemma setCurrent_cleared_nth:
  "j < length doc \<Longrightarrow>
     forEach (querySelectorAll doc cs) f doc ! j = (if matches cs (doc ! j) then f (doc ! j) else doc ! j)"
  by (simp add: forEach_nth querySelectorAll_distinct querySelectorAll_set)

lemma setCurrent_lookup:
  "getElementById (forEach js (classList_remove c) doc) ident = getElementById doc ident"
  by (rule getElementById_ids) (simp add: forEach_ids)

lemma setCurrent_frame: "setCurrent ident s = s\<lparr>document := document (setCurrent ident s)\<rparr>"
  by (simp add: setCurrent_def Let_def on_element_def split: option.splits)

lemma setCurrent_length: "length (document (setCurrent ident s)) = length (document s)"
  by (simp add: setCurrent_def Let_def split: option.splits)

lemma setCurrent_nth:
  assumes "j < length (document s)"
  shows "document (setCurrent ident s) ! j =
     (let e = document s ! j;
          e1 = (if matches [''progress-item'', ''current''] e then classList_remove ''current'' e else e)
      in if getElementById (document s) ident = Some j \<and> \<not> classList_contains ''completed'' e1
         then classList_add ''current'' e1 else e1)"
proof (cases "getElementById (document s) ident")
  case None
  then show ?thesis
    using assms by (simp add: setCurrent_def Let_def setCurrent_lookup setCurrent_cleared_nth)
next
  case (Some i)
  then have "i < length (document s)" by (rule getElementById_less)
  with Some assms show ?thesis
    by (simp add: setCurrent_def Let_def setCurrent_lookup setCurrent_cleared_nth update_element_nth)
qed

text \<open>
  Claim C9, amended.  \<open>setCurrent\<close> changes nothing but class lists, and the class
  list of every element afterwards is determined: \<open>current\<close> is removed from it when
  the element carried both \<open>progress-item\<close> and \<open>current\<close>, and then \<open>current\<close>
  is appended when the element is the target, is not marked \<open>completed\<close> and does not
  carry \<open>current\<close> any more.  So every element with the class \<open>progress-item\<close> loses
  \<open>current\<close>, a completed target included, except the target that gets it back; the
  target carries \<open>current\<close> when it exists and is not marked \<open>completed\<close>; no other
  element gains \<open>current\<close> (none at all when the target is absent or completed); and an
  element without the class \<open>progress-item\<close> that is not the target is left exactly as it
  was, so it keeps \<open>current\<close> if it had it.
\<close>

theorem setCurrent_spec:
  fixes s :: page and ident :: string
  defines "doc \<equiv> document s"
    and "doc' \<equiv> document (setCurrent ident s)"
    and "target \<equiv> getElementById (document s) ident"
  shows "setCurrent ident s = s\<lparr>document := doc'\<rparr>
   \<and> length doc' = length doc
   \<and> (\<forall>j<length doc.
         doc' ! j =
           (doc ! j)\<lparr>classList :=
              (let cleared = (if ''progress-item'' \<in> set (classList (doc ! j))
                                 \<and> ''current'' \<in> set (classList (doc ! j))
                              then removeAll ''current'' (classList (doc ! j))
                              else classList (doc ! j))
               in if target = Some j \<and> ''completed'' \<notin> set (classList (doc ! j))
                     \<and> ''current'' \<notin> set cleared
                  then cleared @ [''current''] else cleared)\<rparr>)
   \<and> (\<forall>j<length doc. ''progress-item'' \<in> set (classList (doc ! j))
          \<and> \<not> (target = Some j \<and> ''completed'' \<notin> set (classList (doc ! j)))
          \<longrightarrow> ''current'' \<notin> set (classList (doc' ! j)))
   \<and> (\<forall>i. target = Some i \<and> ''completed'' \<notin> set (classList (doc ! i))
          \<longrightarrow> ''current'' \<in> set (classList (doc' ! i)))
   \<and> (\<forall>j<length doc. ''current'' \<in> set (classList (doc' ! j))
          \<and> \<not> (target = Some j \<and> ''completed'' \<notin> set (classList (doc ! j)))
          \<longrightarrow> ''current'' \<in> set (classList (doc ! j)))
   \<and> (\<forall>j<length doc. ''progress-item'' \<notin> set (classList (doc ! j)) \<and> target \<noteq> Some j
          \<longrightarrow> doc' ! j = doc ! j)"
proof -
  have nth: "doc' ! j =
     (let e = doc ! j;
          e1 = (if matches [''progress-item'', ''current''] e then classList_remove ''current'' e else e)
      in if target = Some j \<and> \<not> classList_contains ''completed'' e1
         then classList_add ''current'' e1 else e1)" if "j < length doc" for j
    using that unfolding doc_def doc'_def target_def by (rule setCurrent_nth)
  have c1: "setCurrent ident s = s\<lparr>document := doc'\<rparr>"
    unfolding doc'_def by (rule setCurrent_frame)
  have c2: "length doc' = length doc"
    unfolding doc'_def doc_def by (rule setCurrent_length)
  have c0: "\<forall>j<length doc.
         doc' ! j =
           (doc ! j)\<lparr>classList :=
              (let cleared = (if ''progress-item'' \<in> set (classList (doc ! j))
                                 \<and> ''current'' \<in> set (classList (doc ! j))
                              then removeAll ''current'' (classList (doc ! j))
                              else classList (doc ! j))
               in if target = Some j \<and> ''completed'' \<notin> set (classList (doc ! j))
                     \<and> ''current'' \<notin> set cleared
                  then cleared @ [''current''] else cleared)\<rparr>"
    by (simp add: nth Let_def matches_def classList_remove_def classList_add_def
          classList_contains_def)
  have c3: "\<forall>j<length doc. ''progress-item'' \<in> set (classList (doc ! j))
          \<and> \<not> (target = Some j \<and> ''completed'' \<notin> set (classList (doc ! j)))
          \<longrightarrow> ''current'' \<notin> set (classList (doc' ! j))"
    by (auto simp: nth Let_def matches_def classList_remove_def classList_contains_def)
  have c4: "\<forall>i. target = Some i \<and> ''completed'' \<notin> set (classList (doc ! i))
          \<longrightarrow> ''current'' \<in> set (classList (doc' ! i))"
  proof (intro allI impI)
    fix i assume a: "target = Some i \<and> ''completed'' \<notin> set (classList (doc ! i))"
    then have "i < length doc"
      unfolding target_def doc_def using getElementById_less by blast
    with a show "''current'' \<in> set (classList (doc' ! i))"
      by (auto simp: nth Let_def matches_def classList_remove_def classList_add_def
            classList_contains_def)
  qed
  have c5: "\<forall>j<length doc. ''current'' \<in> set (classList (doc' ! j))
          \<and> \<not> (target = Some j \<and> ''completed'' \<notin> set (classList (doc ! j)))
          \<longrightarrow> ''current'' \<in> set (classList (doc ! j))"
    by (auto simp: nth Let_def matches_def classList_remove_def classList_add_def
            classList_contains_def split: if_splits)
  have c6: "\<forall>j<length doc. ''progress-item'' \<notin> set (classList (doc ! j)) \<and> target \<noteq> Some j
          \<longrightarrow> doc' ! j = doc ! j"
    by (auto simp: nth Let_def matches_def)
  from c1 c2 c0 c3 c4 c5 c6 show ?thesis by blast
qed

text \<open>
  Claim C9 as stated fails: the selector is \<open>.progress-item.current\<close>, so an element
  that carries \<open>current\<close> without \<open>progress-item\<close> keeps it.
\<close>

theorem setCurrent_page_wide_counterexample:
  "getElementById (document progress_page) ''step2'' = Some 1
   \<and> classList_contains ''current'' (document progress_page ! 2)
   \<and> classList_contains ''current'' (document (setCurrent ''step2'' progress_page) ! 2)"
  by code_simp

theorem setCurrent_spec_witness:
  "''current'' \<notin> set (classList (document (setCurrent ''step2'' progress_page) ! 0))
   \<and> ''current'' \<in> set (classList (document (setCurrent ''step2'' progress_page) ! 1))
   \<and> document (setCurrent ''step2'' progress_page) ! 2 = document progress_page ! 2
   \<and> ''current'' \<notin> set (classList (document (setCurrent ''step3'' progress_page) ! 3))
   \<and> ''current'' \<in> set (classList (document progress_page ! 4))
   \<and> ''current'' \<notin> set (classList (document (setCurrent ''step4'' progress_page) ! 4))
   \<and> classList (document (setCurrent ''step4'' progress_page) ! 4) = [''progress-item'', ''completed'']"
proof -
  have a: "getElementById (document progress_page) ''step2'' = Some 1"
     "getElementById (document progress_page) ''step3'' = Some 3"
     "getElementById (document progress_page) ''step4'' = Some 4"
     "length (document progress_page) = 5"
     "classList (document progress_page ! 0) = [''progress-item'', ''current'']"
     "classList (document progress_page ! 1) = [''progress-item'']"
     "classList (document progress_page ! 2) = [''current'']"
     "classList (document progress_page ! 3) = [''progress-item'', ''completed'']"
     "classList (document progress_page ! 4) = [''progress-item'', ''current'', ''completed'']"
    by code_simp+
  note S2 = setCurrent_spec [of "''step2''" progress_page]
  note S3 = setCurrent_spec [of "''step3''" progress_page]
  note S4 = setCurrent_spec [of "''step4''" progress_page]
  from S2 have "\<forall>j<length (document progress_page).
      ''progress-item'' \<in> set (classList (document progress_page ! j))
        \<and> \<not> (getElementById (document progress_page) ''step2'' = Some j
              \<and> ''completed'' \<notin> set (classList (document progress_page ! j)))
      \<longrightarrow> ''current'' \<notin> set (classList (document (setCurrent ''step2'' progress_page) ! j))"
    by blast
  from this [rule_format, of 0] a
  have r0: "''current'' \<notin> set (classList (document (setCurrent ''step2'' progress_page) ! 0))"
    by simp
  from S2 have "\<forall>i. getElementById (document progress_page) ''step2'' = Some i
        \<and> ''completed'' \<notin> set (classList (document progress_page ! i))
      \<longrightarrow> ''current'' \<in> set (classList (document (setCurrent ''step2'' progress_page) ! i))"
    by blast
  from this [rule_format, of 1] a
  have r1: "''current'' \<in> set (classList (document (setCurrent ''step2'' progress_page) ! 1))"
    by simp
  from S2 have "\<forall>j<length (document progress_page).
      ''progress-item'' \<notin> set (classList (document progress_page ! j))
        \<and> getElementById (document progress_page) ''step2'' \<noteq> Some j
      \<longrightarrow> document (setCurrent ''step2'' progress_page) ! j = document progress_page ! j"
    by blast
  from this [rule_format, of 2] a
  have r2: "document (setCurrent ''step2'' progress_page) ! 2 = document progress_page ! 2"
    by simp
  from S3 have "\<forall>j<length (document progress_page).
      ''current'' \<in> set (classList (document (setCurrent ''step3'' progress_page) ! j))
        \<and> \<not> (getElementById (document progress_page) ''step3'' = Some j
              \<and> ''completed'' \<notin> set (classList (document progress_page ! j)))
      \<longrightarrow> ''current'' \<in> set (classList (document progress_page ! j))"
    by blast
  from this [rule_format, of 3] a
  have r3: "''current'' \<notin> set (classList (document (setCurrent ''step3'' progress_page) ! 3))"
    by auto
  from S4 have "\<forall>j<length (document progress_page).
      ''progress-item'' \<in> set (classList (document progress_page ! j))
        \<and> \<not> (getElementById (document progress_page) ''step4'' = Some j
              \<and> ''completed'' \<notin> set (classList (document progress_page ! j)))
      \<longrightarrow> ''current'' \<notin> set (classList (document (setCurrent ''step4'' progress_page) ! j))"
    by blast
  from this [rule_format, of 4] a
  have r4: "''current'' \<notin> set (classList (document (setCurrent ''step4'' progress_page) ! 4))"
    by simp
  from S4 have "\<forall>j<length (document progress_page).
         document (setCurrent ''step4'' progress_page) ! j =
           (document progress_page ! j)\<lparr>classList :=
              (let cleared = (if ''progress-item'' \<in> set (classList (document progress_page ! j))
                                 \<and> ''current'' \<in> set (classList (document progress_page ! j))
                              then removeAll ''current'' (classList (document progress_page ! j))
                              else classList (document progress_page ! j))
               in if getElementById (document progress_page) ''step4'' = Some j
                     \<and> ''completed'' \<notin> set (classList (document progress_page ! j))
                     \<and> ''current'' \<notin> set cleared
                  then cleared @ [''current''] else cleared)\<rparr>"
    by blast
  from this [rule_format, of 4] a
  have r5: "classList (document (setCurrent ''step4'' progress_page) ! 4) = [''progress-item'', ''completed'']"
    by simp
  from a have r6: "''current'' \<in> set (classList (document progress_page ! 4))" by simp
  from r0 r1 r2 r3 r4 r5 r6 show ?thesis by blast
qed

text \<open>
  Claim C6, amended.  When the identifier does not resolve to an element, \<open>startTimer\<close>,
  \<open>revealAnswer\<close>, \<open>hideAnswer\<close>, \<open>markComplete\<close>, \<open>highlightBug\<close>,
  \<open>clearBugHighlights\<close>, \<open>animateMerkleTree\<close> and \<open>resetMerkleAnimation\<close> leave
  the whole state unchanged (timer, scores, step counter, document and console).
  \<open>resetTimer\<close> still stops the timer: it clears the handle and cancels that interval,
  changes nothing else, and changes nothing at all when no handle is stored.
  \<open>setCurrent\<close> still removes \<open>current\<close> from the elements matching
  \<open>.progress-item.current\<close>, changes nothing else, and changes nothing at all when no
  element matches.
\<close>

theorem missing_element_spec:
  assumes "getElementById (document s) ident = None"
  shows "startTimer ident seconds onComplete s = s
   \<and> revealAnswer ident s = s \<and> hideAnswer ident s = s
   \<and> markComplete ident s = s
   \<and> highlightBug ident lineNumber s = s \<and> clearBugHighlights ident s = s
   \<and> animateMerkleTree ident s = s \<and> resetMerkleAnimation ident s = s
   \<and> resetTimer ident seconds s =
        s\<lparr>timerInterval := None,
          intervals := filter (\<lambda>(k, cl). Some k \<noteq> timerInterval s) (intervals s)\<rparr>
   \<and> (timerInterval s = None \<longrightarrow> resetTimer ident seconds s = s)
   \<and> setCurrent ident s =
        s\<lparr>document := forEach (querySelectorAll (document s) [''progress-item'', ''current''])
                         (classList_remove ''current'') (document s)\<rparr>
   \<and> (querySelectorAll (document s) [''progress-item'', ''current''] = [] \<longrightarrow> setCurrent ident s = s)"
proof -
  have st: "stopTimer s = s\<lparr>timerInterval := None,
          intervals := filter (\<lambda>(k, cl). Some k \<noteq> timerInterval s) (intervals s)\<rparr>"
    by (cases "timerInterval s") (simp_all add: stopTimer_def clearInterval_def)
  have c1: "startTimer ident seconds onComplete s = s"
    using assms by (simp add: startTimer_def)
  have c2: "revealAnswer ident s = s" "hideAnswer ident s = s" "markComplete ident s = s"
    using assms by (simp_all add: revealAnswer_def hideAnswer_def markComplete_def)
  have c3: "highlightBug ident lineNumber s = s" "clearBugHighlights ident s = s"
    "animateMerkleTree ident s = s" "resetMerkleAnimation ident s = s"
    using assms
    by (simp_all add: highlightBug_def clearBugHighlights_def animateMerkleTree_def
          resetMerkleAnimation_def)
  have c4: "resetTimer ident seconds s = stopTimer s"
    using assms by (simp add: resetTimer_def Let_def)
  have c5: "timerInterval s = None \<longrightarrow> resetTimer ident seconds s = s"
    unfolding c4 by (simp add: stopTimer_def)
  have c6: "setCurrent ident s =
        s\<lparr>document := forEach (querySelectorAll (document s) [''progress-item'', ''current''])
                         (classList_remove ''current'') (document s)\<rparr>"
    using assms by (simp add: setCurrent_def Let_def setCurrent_lookup)
  have c7: "querySelectorAll (document s) [''progress-item'', ''current''] = [] \<longrightarrow> setCurrent ident s = s"
    unfolding c6 by (simp add: forEach_def)
  from c1 c2 c3 c4 c5 c6 c7 st show ?thesis by simp
qed

text \<open>
  Claim C6 as stated fails for \<open>resetTimer\<close>, which calls \<open>stopTimer\<close> before it looks
  the display up, and for \<open>setCurrent\<close>, which clears \<open>current\<close> before it looks the
  item up.
\<close>

theorem missing_element_counterexample:
  "getElementById (document running_page) ''missing'' = None
   \<and> timerInterval running_page = Some 1
   \<and> timerInterval (resetTimer ''missing'' 10 running_page) = None
   \<and> getElementById (document progress_page) ''missing'' = None
   \<and> document (setCurrent ''missing'' progress_page) \<noteq> document progress_page"
  by code_simp

theorem missing_element_spec_witness:
  "getElementById (document running_page) ''missing'' = None
   \<and> startTimer ''missing'' 10 None running_page = running_page
   \<and> revealAnswer ''missing'' running_page = running_page
   \<and> animateMerkleTree ''missing'' running_page = running_page
   \<and> timerSeconds (resetTimer ''missing'' 10 running_page) = timerSeconds running_page
   \<and> document (resetTimer ''missing'' 10 running_page) = document running_page
   \<and> getElementById (document timer_page) ''missing'' = None
   \<and> resetTimer ''missing'' 10 timer_page = timer_page
   \<and> setCurrent ''missing'' timer_page = timer_page"
proof -
  have a: "getElementById (document running_page) ''missing'' = None" by code_simp
  have b: "getElementById (document timer_page) ''missing'' = None" by code_simp
  have c: "timerInterval timer_page = None"
    "querySelectorAll (document timer_page) [''progress-item'', ''current''] = []"
    by code_simp+
  note R = missing_element_spec [OF a, of 10 None 1]
  note T = missing_element_spec [OF b, of 10 None 1]
  from R have r1: "startTimer ''missing'' 10 None running_page = running_page"
    "revealAnswer ''missing'' running_page = running_page"
    "animateMerkleTree ''missing'' running_page = running_page"
    by blast+
  from R have "resetTimer ''missing'' 10 running_page =
        running_page\<lparr>timerInterval := None,
          intervals := filter (\<lambda>(k, cl). Some k \<noteq> timerInterval running_page) (intervals running_page)\<rparr>"
    by blast
  then have r2: "timerSeconds (resetTimer ''missing'' 10 running_page) = timerSeconds running_page"
    "document (resetTimer ''missing'' 10 running_page) = document running_page"
    by simp_all
  from T c have t1: "resetTimer ''missing'' 10 timer_page = timer_page"
    "setCurrent ''missing'' timer_page = timer_page"
    by blast+
  from a b r1 r2 t1 show ?thesis by blast
qed

end
